theory Spec2Isabelle
  imports Complex_Main "HOL-Library.List_Lexorder" "HOL-Library.Char_ord"
begin

section \<open>Conventions of the embedding\<close>

text \<open>
  The development embeds the translation engine of the toolkit: \<^verbatim>\<open>StyleParser\<close>,
  \<^verbatim>\<open>ComponentParser\<close> and \<^verbatim>\<open>ReactNativeGenerator\<close>.

  \<^item> A JavaScript string is a \<open>string\<close>, one \<open>char\<close> per code unit (code units below 256).
  \<^item> A JavaScript number is a \<open>rat\<close>, the value of the double: JSON input holds neither
    NaN nor an infinity. The product of the alpha of a color and the opacity of a fill is
    rounded to a double by the runtime, and the rounded value decides the text that comes
    out: that product is the field \<open>multiply\<close> of \<open>JsRuntime\<close>. The products of a channel
    and 255 under \<^verbatim>\<open>Math.round\<close> are exact.
  \<^item> An optional field \<^verbatim>\<open>f?: T\<close> is a \<open>T option\<close>, \<open>None\<close> for \<^verbatim>\<open>undefined\<close>.
  \<^item> A style object is an association list in insertion order, as the keys of a JavaScript
    object are: assignment to a present key keeps its place, a new key goes last.
  \<^item> What the JavaScript runtime supplies and the repository does not define (conversion of a
    number to a string, the product of two doubles, \<^verbatim>\<open>JSON.stringify\<close>) is a field of the record \<open>JsRuntime\<close>, passed
    to every function that needs it.
  \<^item> Instance state of the generator (\<^verbatim>\<open>generatedStyles\<close>, \<^verbatim>\<open>componentCounter\<close>) is passed
    explicitly and returned updated.
\<close>

section \<open>Strings\<close>

definition nl :: string where
  "nl = [CHR 0x0A]"

definition sq :: string where
  "sq = [CHR 0x27]"

definition lowerLetters :: string where
  "lowerLetters = ''abcdefghijklmnopqrstuvwxyz''"

definition upperLetters :: string where
  "upperLetters = ''ABCDEFGHIJKLMNOPQRSTUVWXYZ''"

definition digitChars :: string where
  "digitChars = ''0123456789''"

text \<open>The class \<^verbatim>\<open>\s\<close> of a regular expression, and what \<^verbatim>\<open>trim\<close> removes.\<close>

definition isSpace :: "char \<Rightarrow> bool" where
  "isSpace c = (c \<in> set [CHR 0x09, CHR 0x0A, CHR 0x0B, CHR 0x0C, CHR 0x0D, CHR 0x20, CHR 0xA0])"

definition isLetter :: "char \<Rightarrow> bool" where
  "isLetter c = (c \<in> set (lowerLetters @ upperLetters))"

definition isAlnum :: "char \<Rightarrow> bool" where
  "isAlnum c = (c \<in> set (lowerLetters @ upperLetters @ digitChars))"

text \<open>
  \<^verbatim>\<open>toLowerCase\<close> and \<^verbatim>\<open>toUpperCase\<close> on the letters A to Z. Other code units are left as
  they are: the generator applies the two functions to names already reduced to letters,
  digits and white space, and the analyzer only searches the lowered name for words of
  lower-case ASCII letters.
\<close>

definition lowerChar :: "char \<Rightarrow> char" where
  "lowerChar c = (case map_of (zip upperLetters lowerLetters) c of Some d \<Rightarrow> d | None \<Rightarrow> c)"

definition upperChar :: "char \<Rightarrow> char" where
  "upperChar c = (case map_of (zip lowerLetters upperLetters) c of Some d \<Rightarrow> d | None \<Rightarrow> c)"

definition toLowerCase :: "string \<Rightarrow> string" where
  "toLowerCase s = map lowerChar s"

definition toUpperCase :: "string \<Rightarrow> string" where
  "toUpperCase s = map upperChar s"

definition trim :: "string \<Rightarrow> string" where
  "trim s = rev (dropWhile isSpace (rev (dropWhile isSpace s)))"

text \<open>\<^verbatim>\<open>s.includes(t)\<close>.\<close>

fun startsWith :: "string \<Rightarrow> string \<Rightarrow> bool" where
  "startsWith s [] = True"
| "startsWith [] (c # t) = False"
| "startsWith (d # s) (c # t) = (d = c \<and> startsWith s t)"

fun includesStr :: "string \<Rightarrow> string \<Rightarrow> bool" where
  "includesStr [] t = (t = [])"
| "includesStr (c # s) t = (startsWith (c # s) t \<or> includesStr s t)"

text \<open>\<^verbatim>\<open>xs.join(sep)\<close>.\<close>

fun join :: "string \<Rightarrow> string list \<Rightarrow> string" where
  "join sep [] = []"
| "join sep [x] = x"
| "join sep (x # y # ys) = x @ sep @ join sep (y # ys)"

text \<open>\<^verbatim>\<open>s.repeat(n)\<close>.\<close>

definition repeat :: "string \<Rightarrow> nat \<Rightarrow> string" where
  "repeat s n = concat (replicate n s)"

text \<open>
  \<^verbatim>\<open>s.split(/\s+/)\<close>: the pieces between the maximal runs of white space; a run at either
  end leaves an empty piece there, and the empty string gives one empty piece.
\<close>

function splitWs :: "string \<Rightarrow> string \<Rightarrow> string list" where
  "splitWs acc [] = [rev acc]"
| "splitWs acc (c # cs) =
     (if isSpace c then rev acc # splitWs [] (dropWhile isSpace cs)
      else splitWs (c # acc) cs)"
  by pat_completeness auto
termination
  by (relation "measure (\<lambda>(acc, s). length s)") (auto simp: length_dropWhile_le less_Suc_eq_le)

text \<open>The decimal numeral of a natural number, as a template literal prints a counter.\<close>

definition digitChar :: "nat \<Rightarrow> char" where
  "digitChar d = digitChars ! d"

fun showNat :: "nat \<Rightarrow> string" where
  "showNat n = (if n < 10 then [digitChar n] else showNat (n div 10) @ [digitChar (n mod 10)])"

declare showNat.simps [simp del]

section \<open>The JavaScript runtime\<close>

datatype StyleValue = VNum rat | VStr string | VOffset rat rat

type_synonym ReactNativeStyleProperties = "(string \<times> StyleValue) list"

record JsRuntime =
  numberToString :: "rat \<Rightarrow> string"
  multiply :: "rat \<Rightarrow> rat \<Rightarrow> rat"
  stringifyString :: "string \<Rightarrow> string"
  stringifyStyle :: "ReactNativeStyleProperties \<Rightarrow> string"

text \<open>\<^verbatim>\<open>Math.round\<close>: the nearest integer, a half rounded upwards.\<close>

definition Math_round :: "rat \<Rightarrow> rat" where
  "Math_round x = of_int \<lfloor>x + 1 / 2\<rfloor>"

section \<open>Design nodes\<close>

record FigmaColor =
  color_r :: rat
  color_g :: rat
  color_b :: rat
  color_a :: "rat option"

datatype PaintType =
  SOLID | GRADIENT_LINEAR | GRADIENT_RADIAL | GRADIENT_ANGULAR | GRADIENT_DIAMOND | IMAGE

record FigmaFill =
  fill_type :: PaintType
  fill_color :: "FigmaColor option"
  fill_opacity :: "rat option"
  fill_visible :: "bool option"

record FigmaStroke =
  stroke_type :: PaintType
  stroke_color :: "FigmaColor option"
  stroke_opacity :: "rat option"
  stroke_visible :: "bool option"

datatype EffectType = DROP_SHADOW | INNER_SHADOW | LAYER_BLUR | BACKGROUND_BLUR

record FigmaVector =
  vec_x :: rat
  vec_y :: rat

record FigmaEffect =
  effect_type :: EffectType
  effect_visible :: "bool option"
  effect_radius :: "rat option"
  effect_color :: "FigmaColor option"
  effect_offset :: "FigmaVector option"

record FigmaTextStyle =
  fontFamily :: string
  fontSize :: rat
  fontWeight :: rat
  textAlignHorizontal :: "string option"
  textAlignVertical :: "string option"
  letterSpacing :: "rat option"
  lineHeightPx :: "rat option"
  textDecoration :: "string option"
  textCase :: "string option"

text \<open>The fields of a \<^verbatim>\<open>FigmaNode\<close> that the engine reads, the children apart.\<close>

record NodeAttrs =
  node_id :: string
  node_name :: string
  node_type :: string
  node_x :: "rat option"
  node_y :: "rat option"
  node_width :: "rat option"
  node_height :: "rat option"
  node_fills :: "FigmaFill list option"
  node_strokes :: "FigmaStroke list option"
  node_style :: "FigmaTextStyle option"
  node_cornerRadius :: "rat option"
  node_characters :: "string option"
  node_effects :: "FigmaEffect list option"
  node_visible :: "bool option"
  node_opacity :: "rat option"
  node_layoutMode :: "string option"
  node_paddingLeft :: "rat option"
  node_paddingRight :: "rat option"
  node_paddingTop :: "rat option"
  node_paddingBottom :: "rat option"
  node_itemSpacing :: "rat option"
  node_counterAxisAlignItems :: "string option"
  node_primaryAxisAlignItems :: "string option"

datatype FigmaNode = Node (attrs: NodeAttrs) (children: "FigmaNode list option")

text \<open>Truthiness of an optional string and of an optional number.\<close>

definition truthyStr :: "string option \<Rightarrow> bool" where
  "truthyStr s = (case s of None \<Rightarrow> False | Some t \<Rightarrow> t \<noteq> [])"

definition truthyNum :: "rat option \<Rightarrow> bool" where
  "truthyNum n = (case n of None \<Rightarrow> False | Some x \<Rightarrow> x \<noteq> 0)"

section \<open>Style objects\<close>

fun setProp :: "string \<Rightarrow> StyleValue \<Rightarrow> ReactNativeStyleProperties \<Rightarrow> ReactNativeStyleProperties" where
  "setProp k v [] = [(k, v)]"
| "setProp k v (p # ps) = (if fst p = k then (k, v) # ps else p # setProp k v ps)"

definition deleteProp :: "string \<Rightarrow> ReactNativeStyleProperties \<Rightarrow> ReactNativeStyleProperties" where
  "deleteProp k s = filter (\<lambda>p. fst p \<noteq> k) s"

definition getProp :: "ReactNativeStyleProperties \<Rightarrow> string \<Rightarrow> StyleValue option" where
  "getProp s k = map_of s k"

text \<open>\<^verbatim>\<open>Object.assign(target, source)\<close>.\<close>

definition assign :: "ReactNativeStyleProperties \<Rightarrow> ReactNativeStyleProperties \<Rightarrow> ReactNativeStyleProperties" where
  "assign target source = foldl (\<lambda>s p. setProp (fst p) (snd p) s) target source"

text \<open>\<^verbatim>\<open>if (cond) styles.key = value\<close>, for a value that is there or not.\<close>

definition setWhen :: "string \<Rightarrow> StyleValue option \<Rightarrow> ReactNativeStyleProperties \<Rightarrow> ReactNativeStyleProperties" where
  "setWhen k v s = (case v of None \<Rightarrow> s | Some x \<Rightarrow> setProp k x s)"

section \<open>StyleParser\<close>

definition colorToString :: "JsRuntime \<Rightarrow> FigmaColor \<Rightarrow> string" where
  "colorToString rt color =
     (let r = Math_round (color_r color * 255);
          g = Math_round (color_g color * 255);
          b = Math_round (color_b color * 255);
          a = (case color_a color of Some x \<Rightarrow> x | None \<Rightarrow> 1)
      in if a = 1
         then ''rgb('' @ numberToString rt r @ '', '' @ numberToString rt g @ '', ''
              @ numberToString rt b @ '')''
         else ''rgba('' @ numberToString rt r @ '', '' @ numberToString rt g @ '', ''
              @ numberToString rt b @ '', '' @ numberToString rt a @ '')'')"

definition fillToBackgroundColor :: "JsRuntime \<Rightarrow> FigmaFill list \<Rightarrow> string option" where
  "fillToBackgroundColor rt fills =
     (if fills = [] then None
      else case find (\<lambda>fill. fill_visible fill \<noteq> Some False \<and> fill_type fill = SOLID
                               \<and> fill_color fill \<noteq> None) fills of
        None \<Rightarrow> None
      | Some solidFill \<Rightarrow>
          (case fill_color solidFill of
             None \<Rightarrow> None
           | Some c \<Rightarrow>
               (let opacity = (case fill_opacity solidFill of Some x \<Rightarrow> x | None \<Rightarrow> 1);
                    color = c\<lparr>color_a := Some (case color_a c of
                                                    Some x \<Rightarrow> multiply rt x opacity
                                                  | None \<Rightarrow> opacity)\<rparr>
                in Some (colorToString rt color))))"

definition fontWeightMap :: "(rat \<times> string) list" where
  "fontWeightMap =
     [(100, ''100''), (200, ''200''), (300, ''300''), (400, ''normal''), (500, ''500''),
      (600, ''600''), (700, ''bold''), (800, ''800''), (900, ''900'')]"

text \<open>\<^verbatim>\<open>table[key] || fallback\<close>, for a table of non-empty strings.\<close>

definition lookupOr :: "('k \<times> string) list \<Rightarrow> 'k \<Rightarrow> string \<Rightarrow> string" where
  "lookupOr table k fallback = (case map_of table k of Some v \<Rightarrow> v | None \<Rightarrow> fallback)"

definition textStyleToReactNative ::
  "JsRuntime \<Rightarrow> FigmaTextStyle \<Rightarrow> FigmaFill list option \<Rightarrow> ReactNativeStyleProperties" where
  "textStyleToReactNative rt textStyle fills =
     (let style = [];
          style = (if fontFamily textStyle \<noteq> [] then
                     setProp ''fontFamily'' (VStr (fontFamily textStyle)) style else style);
          style = (if fontSize textStyle \<noteq> 0 then
                     setProp ''fontSize'' (VNum (fontSize textStyle)) style else style);
          style = (if fontWeight textStyle \<noteq> 0 then
                     setProp ''fontWeight''
                       (VStr (lookupOr fontWeightMap (fontWeight textStyle) ''normal'')) style
                   else style);
          style = (if truthyStr (textAlignHorizontal textStyle) then
                     setProp ''textAlign''
                       (VStr (lookupOr [(''LEFT'', ''left''), (''CENTER'', ''center''),
                                        (''RIGHT'', ''right''), (''JUSTIFIED'', ''justify'')]
                                (the (textAlignHorizontal textStyle)) ''left'')) style
                   else style);
          style = (if truthyStr (textAlignVertical textStyle) then
                     setProp ''textAlignVertical''
                       (VStr (lookupOr [(''TOP'', ''top''), (''CENTER'', ''center''),
                                        (''BOTTOM'', ''bottom'')]
                                (the (textAlignVertical textStyle)) ''auto'')) style
                   else style);
          style = (if truthyNum (letterSpacing textStyle) then
                     setProp ''letterSpacing'' (VNum (the (letterSpacing textStyle))) style
                   else style);
          style = (if truthyNum (lineHeightPx textStyle) then
                     setProp ''lineHeight'' (VNum (the (lineHeightPx textStyle))) style
                   else style);
          style = (if truthyStr (textDecoration textStyle) then
                     setProp ''textDecorationLine''
                       (VStr (lookupOr [(''NONE'', ''none''), (''UNDERLINE'', ''underline''),
                                        (''STRIKETHROUGH'', ''line-through'')]
                                (the (textDecoration textStyle)) ''none'')) style
                   else style);
          style = (if truthyStr (textCase textStyle) then
                     setProp ''textTransform''
                       (VStr (lookupOr [(''ORIGINAL'', ''none''), (''UPPER'', ''uppercase''),
                                        (''LOWER'', ''lowercase''), (''TITLE'', ''capitalize'')]
                                (the (textCase textStyle)) ''none'')) style
                   else style);
          style = (case fills of
                     None \<Rightarrow> style
                   | Some fs \<Rightarrow>
                       (if fs \<noteq> [] then
                          (case fillToBackgroundColor rt fs of
                             None \<Rightarrow> style
                           | Some textColor \<Rightarrow>
                               (if textColor \<noteq> [] then setProp ''color'' (VStr textColor) style
                                else style))
                        else style))
      in style)"

text \<open>The border block of \<^verbatim>\<open>nodeToStyles\<close>: the stroke read is \<^verbatim>\<open>node.strokes[0]\<close>.\<close>

definition strokeStyles ::
  "JsRuntime \<Rightarrow> NodeAttrs \<Rightarrow> ReactNativeStyleProperties \<Rightarrow> ReactNativeStyleProperties" where
  "strokeStyles rt node styles =
     (case node_strokes node of
        None \<Rightarrow> styles
      | Some [] \<Rightarrow> styles
      | Some (stroke # rest) \<Rightarrow>
          (case stroke_color stroke of
             None \<Rightarrow> styles
           | Some c \<Rightarrow>
               setProp ''borderStyle'' (VStr ''solid'')
                 (setProp ''borderWidth'' (VNum 1)
                   (setProp ''borderColor'' (VStr (colorToString rt c)) styles))))"

text \<open>The auto-layout block of \<^verbatim>\<open>nodeToStyles\<close>.\<close>

definition layoutStyles :: "NodeAttrs \<Rightarrow> ReactNativeStyleProperties \<Rightarrow> ReactNativeStyleProperties" where
  "layoutStyles node styles =
     (if truthyStr (node_layoutMode node) then
        (let styles = (if node_layoutMode node = Some ''HORIZONTAL'' then
                         setProp ''flexDirection'' (VStr ''row'') styles
                       else if node_layoutMode node = Some ''VERTICAL'' then
                         setProp ''flexDirection'' (VStr ''column'') styles
                       else styles);
             styles = setWhen ''paddingLeft'' (map_option VNum (node_paddingLeft node)) styles;
             styles = setWhen ''paddingRight'' (map_option VNum (node_paddingRight node)) styles;
             styles = setWhen ''paddingTop'' (map_option VNum (node_paddingTop node)) styles;
             styles = setWhen ''paddingBottom'' (map_option VNum (node_paddingBottom node)) styles;
             styles = setWhen ''itemSpacing'' (map_option VNum (node_itemSpacing node)) styles;
             styles = (if truthyStr (node_primaryAxisAlignItems node) then
                         setProp ''justifyContent''
                           (VStr (lookupOr [(''MIN'', ''flex-start''), (''CENTER'', ''center''),
                                            (''MAX'', ''flex-end''),
                                            (''SPACE_BETWEEN'', ''space-between'')]
                                    (the (node_primaryAxisAlignItems node)) ''flex-start'')) styles
                       else styles);
             styles = (if truthyStr (node_counterAxisAlignItems node) then
                         setProp ''alignItems''
                           (VStr (lookupOr [(''MIN'', ''flex-start''), (''CENTER'', ''center''),
                                            (''MAX'', ''flex-end'')]
                                    (the (node_counterAxisAlignItems node)) ''flex-start'')) styles
                       else styles)
         in styles)
      else styles)"

text \<open>The shadow block of \<^verbatim>\<open>nodeToStyles\<close>.\<close>

definition effectStyles ::
  "JsRuntime \<Rightarrow> NodeAttrs \<Rightarrow> ReactNativeStyleProperties \<Rightarrow> ReactNativeStyleProperties" where
  "effectStyles rt node styles =
     (case node_effects node of
        None \<Rightarrow> styles
      | Some effects \<Rightarrow>
          (if effects = [] then styles
           else case find (\<lambda>effect. effect_type effect = DROP_SHADOW
                                   \<and> effect_visible effect \<noteq> Some False) effects of
             None \<Rightarrow> styles
           | Some shadowEffect \<Rightarrow>
               (let styles = setWhen ''shadowColor''
                               (map_option (\<lambda>c. VStr (colorToString rt c))
                                  (effect_color shadowEffect)) styles;
                    styles = setWhen ''shadowOffset''
                               (map_option (\<lambda>v. VOffset (vec_x v) (vec_y v))
                                  (effect_offset shadowEffect)) styles;
                    styles = setWhen ''shadowRadius''
                               (map_option VNum (effect_radius shadowEffect)) styles;
                    alpha = (case effect_color shadowEffect of
                               None \<Rightarrow> None | Some c \<Rightarrow> color_a c);
                    styles = setProp ''shadowOpacity''
                               (VNum (if truthyNum alpha then the alpha else 3 / 10)) styles;
                    styles = setProp ''elevation''
                               (VNum (if truthyNum (effect_radius shadowEffect)
                                      then the (effect_radius shadowEffect) else 3)) styles
                in styles)))"

definition nodeToStyles :: "JsRuntime \<Rightarrow> NodeAttrs \<Rightarrow> ReactNativeStyleProperties" where
  "nodeToStyles rt node =
     (let styles = [];
          styles = setWhen ''left'' (map_option VNum (node_x node)) styles;
          styles = setWhen ''top'' (map_option VNum (node_y node)) styles;
          styles = setWhen ''width'' (map_option VNum (node_width node)) styles;
          styles = setWhen ''height'' (map_option VNum (node_height node)) styles;
          styles = (case node_fills node of
                      None \<Rightarrow> styles
                    | Some fs \<Rightarrow>
                        (case fillToBackgroundColor rt fs of
                           None \<Rightarrow> styles
                         | Some backgroundColor \<Rightarrow>
                             (if backgroundColor \<noteq> [] then
                                setProp ''backgroundColor'' (VStr backgroundColor) styles
                              else styles)));
          styles = setWhen ''borderRadius'' (map_option VNum (node_cornerRadius node)) styles;
          styles = strokeStyles rt node styles;
          styles = (if node_opacity node \<noteq> None \<and> node_opacity node \<noteq> Some 1 then
                      setProp ''opacity'' (VNum (the (node_opacity node))) styles
                    else styles);
          styles = layoutStyles node styles;
          styles = (case node_style node of
                      None \<Rightarrow> styles
                    | Some textStyle \<Rightarrow>
                        assign styles (textStyleToReactNative rt textStyle (node_fills node)));
          styles = effectStyles rt node styles
      in styles)"

text \<open>One entry of \<^verbatim>\<open>stylesToString\<close>.\<close>

definition styleValueToString :: "JsRuntime \<Rightarrow> StyleValue \<Rightarrow> string" where
  "styleValueToString rt v =
     (case v of
        VStr s \<Rightarrow> sq @ s @ sq
      | VOffset w h \<Rightarrow>
          ''{ '' @ join '', '' [''width: '' @ numberToString rt w,
                                 ''height: '' @ numberToString rt h] @ '' }''
      | VNum x \<Rightarrow> numberToString rt x)"

definition stylesToString :: "JsRuntime \<Rightarrow> ReactNativeStyleProperties \<Rightarrow> nat \<Rightarrow> string" where
  "stylesToString rt styles indentLevel =
     (let indent = repeat ''  '' indentLevel;
          entries = styles
      in if entries = [] then ''{}''
         else (let styleStrings =
                     map (\<lambda>(key, v). indent @ key @ '': '' @ styleValueToString rt v) entries
               in ''{'' @ nl @ join ('','' @ nl) styleStrings @ nl @ drop 2 indent @ ''}''))"

definition deleteIf :: "string \<Rightarrow> StyleValue \<Rightarrow> ReactNativeStyleProperties \<Rightarrow> ReactNativeStyleProperties" where
  "deleteIf k v s = (if getProp s k = Some v then deleteProp k s else s)"

definition optimizeStyles :: "ReactNativeStyleProperties \<Rightarrow> ReactNativeStyleProperties" where
  "optimizeStyles styles =
     (let optimized = styles;
          optimized = deleteIf ''opacity'' (VNum 1) optimized;
          optimized = deleteIf ''borderWidth'' (VNum 0) optimized;
          optimized = deleteIf ''borderRadius'' (VNum 0) optimized;
          optimized = deleteIf ''padding'' (VNum 0) optimized;
          optimized = deleteIf ''margin'' (VNum 0) optimized;
          optimized = deleteIf ''flex'' (VNum 0) optimized
      in optimized)"

section \<open>ComponentParser\<close>

text \<open>
  The table \<^verbatim>\<open>NODE_TO_COMPONENT_MAP\<close>. The keys an object literal inherits from
  \<^verbatim>\<open>Object.prototype\<close> are not part of the model.
\<close>

definition NODE_TO_COMPONENT_MAP :: "(string \<times> string) list" where
  "NODE_TO_COMPONENT_MAP =
     [(''FRAME'', ''View''), (''RECTANGLE'', ''View''), (''ELLIPSE'', ''View''),
      (''POLYGON'', ''View''), (''STAR'', ''View''), (''VECTOR'', ''View''),
      (''TEXT'', ''Text''), (''GROUP'', ''View''), (''COMPONENT'', ''View''),
      (''INSTANCE'', ''View''), (''BOOLEAN_OPERATION'', ''View''), (''LINE'', ''View'')]"

definition getComponentType :: "NodeAttrs \<Rightarrow> string" where
  "getComponentType node = lookupOr NODE_TO_COMPONENT_MAP (node_type node) ''View''"

definition shouldRenderAsImage :: "NodeAttrs \<Rightarrow> bool" where
  "shouldRenderAsImage node =
     (let imageTypes = [''VECTOR'', ''BOOLEAN_OPERATION'', ''STAR'', ''POLYGON'']
      in node_type node \<in> set imageTypes)"

text \<open>\<^verbatim>\<open>word.charAt(0).toUpperCase() + word.slice(1).toLowerCase()\<close>.\<close>

definition capitalize :: "string \<Rightarrow> string" where
  "capitalize word = toUpperCase (take 1 word) @ toLowerCase (drop 1 word)"

definition generateComponentName :: "string \<Rightarrow> string" where
  "generateComponentName nodeName =
     (let name = concat (map capitalize
                   (splitWs [] (filter (\<lambda>c. isAlnum c \<or> isSpace c) nodeName)))
      in if name = [] \<or> \<not> (case name of [] \<Rightarrow> False | c # cs \<Rightarrow> c \<in> set upperLetters)
         then ''Component'' @ name
         else name)"

definition generateStyleName :: "string \<Rightarrow> string" where
  "generateStyleName nodeName =
     (let name = concat (map (\<lambda>(word, index).
                               if index = 0 then toLowerCase word else capitalize word)
                   (let ws = splitWs [] (filter (\<lambda>c. isAlnum c \<or> isSpace c) nodeName)
                    in zip ws [0 ..< length ws]))
      in if name = [] \<or> \<not> (case name of [] \<Rightarrow> False | c # cs \<Rightarrow> isLetter c)
         then ''container'' @ toUpperCase (take 1 name) @ drop 1 name
         else name)"

definition extractTextContent :: "NodeAttrs \<Rightarrow> string" where
  "extractTextContent node =
     (if node_type node = ''TEXT'' \<and> truthyStr (node_characters node)
      then the (node_characters node) else [])"

definition hasVisualContent :: "NodeAttrs \<Rightarrow> bool" where
  "hasVisualContent node =
     (if node_type node = ''TEXT'' \<and> truthyStr (node_characters node)
         \<and> trim (the (node_characters node)) \<noteq> [] then True
      else if (case node_fills node of None \<Rightarrow> False
               | Some fs \<Rightarrow> list_ex (\<lambda>fill. fill_visible fill \<noteq> Some False) fs) then True
      else if (case node_strokes node of None \<Rightarrow> False
               | Some ss \<Rightarrow> list_ex (\<lambda>stroke. stroke_visible stroke \<noteq> Some False) ss) then True
      else if (case node_effects node of None \<Rightarrow> False
               | Some es \<Rightarrow> list_ex (\<lambda>effect. effect_visible effect \<noteq> Some False) es) then True
      else False)"

fun shouldRenderNode :: "FigmaNode \<Rightarrow> bool"
  and hasRenderableChildren :: "FigmaNode \<Rightarrow> bool" where
  "shouldRenderNode (Node node cs) =
     (if node_visible node = Some False then False
      else if \<not> hasVisualContent node \<and> \<not> hasRenderableChildren (Node node cs) then False
      else True)"
| "hasRenderableChildren (Node node cs) =
     (case cs of
        None \<Rightarrow> False
      | Some l \<Rightarrow> list_ex (\<lambda>child. node_visible (attrs child) \<noteq> Some False
                                \<and> shouldRenderNode child) l)"

record Analysis =
  componentType :: string
  hasText :: bool
  hasImages :: bool
  hasInteractiveElements :: bool
  childCount :: nat
  layoutType :: string
  suggestedProps :: "string list"

text \<open>The three flags that the closure \<^verbatim>\<open>analyzeNodeRecursively\<close> assigns.\<close>

record Flags =
  flag_hasText :: bool
  flag_hasImages :: bool
  flag_hasInteractiveElements :: bool

fun analyzeNodeRecursively :: "Flags \<Rightarrow> FigmaNode \<Rightarrow> Flags" where
  "analyzeNodeRecursively fl (Node n cs) =
     (let fl = (if node_type n = ''TEXT'' then fl\<lparr>flag_hasText := True\<rparr> else fl);
          fl = (if shouldRenderAsImage n then fl\<lparr>flag_hasImages := True\<rparr> else fl);
          fl = (if includesStr (toLowerCase (node_name n)) ''button''
                   \<or> includesStr (toLowerCase (node_name n)) ''input''
                   \<or> includesStr (toLowerCase (node_name n)) ''field''
                then fl\<lparr>flag_hasInteractiveElements := True\<rparr> else fl)
      in case cs of
           None \<Rightarrow> fl
         | Some l \<Rightarrow>
             foldl (\<lambda>acc child. if shouldRenderNode child
                                 then analyzeNodeRecursively acc child else acc) fl l)"

definition analyzeComponent :: "FigmaNode \<Rightarrow> Analysis" where
  "analyzeComponent tree =
     (let node = attrs tree;
          fl = \<lparr>flag_hasText = False, flag_hasImages = False,
                flag_hasInteractiveElements = False\<rparr>;
          layout = (if truthyStr (node_layoutMode node) then ''flex'' else ''absolute'');
          count = (case children tree of
                     None \<Rightarrow> 0
                   | Some l \<Rightarrow> length (filter shouldRenderNode l));
          fl = (case children tree of
                  None \<Rightarrow> fl
                | Some l \<Rightarrow>
                    foldl (\<lambda>acc child. if shouldRenderNode child
                                        then analyzeNodeRecursively acc child else acc) fl l);
          layout = (case children tree of
                      None \<Rightarrow> layout
                    | Some l \<Rightarrow>
                        (if count > 1 \<and> \<not> truthyStr (node_layoutMode node) then
                           (let hasAbsolutePositioning =
                                  list_ex (\<lambda>child. node_x (attrs child) \<noteq> None
                                                   \<and> node_y (attrs child) \<noteq> None) l
                            in if hasAbsolutePositioning
                               then (if count > 3 then ''mixed'' else ''absolute'')
                               else layout)
                         else layout));
          props = [];
          props = (if flag_hasText fl
                   then props @ [''title'', ''subtitle'', ''description''] else props);
          props = (if flag_hasInteractiveElements fl
                   then props @ [''onPress'', ''onLongPress'', ''disabled''] else props);
          props = (if flag_hasImages fl
                   then props @ [''imageSource'', ''imageStyle''] else props)
      in \<lparr>componentType = getComponentType node,
          hasText = flag_hasText fl,
          hasImages = flag_hasImages fl,
          hasInteractiveElements = flag_hasInteractiveElements fl,
          childCount = count,
          layoutType = layout,
          suggestedProps = props\<rparr>)"

definition generatePropsInterface :: "string \<Rightarrow> Analysis \<Rightarrow> string" where
  "generatePropsInterface componentName analysis =
     (let props = suggestedProps analysis @ [''style?'']
      in if length props = 1 then
           ''interface '' @ componentName @ ''Props {'' @ nl @ ''  style?: ViewStyle;'' @ nl @ ''}''
         else
           (let propStrings =
                  map (\<lambda>prop.
                         if prop = ''style?'' then ''  style?: ViewStyle;''
                         else if includesStr prop ''onPress'' \<or> includesStr prop ''onLongPress''
                           then ''  '' @ prop @ ''?: () => void;''
                         else if prop = ''disabled'' then ''  disabled?: boolean;''
                         else if includesStr prop ''image'' then ''  '' @ prop @ ''?: any;''
                         else ''  '' @ prop @ ''?: string;'') props
            in ''interface '' @ componentName @ ''Props {'' @ nl @ join nl propStrings @ nl @ ''}''))"

text \<open>\<^verbatim>\<open>Math.max(...xs)\<close> of a list that is not empty.\<close>

fun maxList :: "nat list \<Rightarrow> nat" where
  "maxList [] = 0"
| "maxList [x] = x"
| "maxList (x # y # ys) = max x (maxList (y # ys))"

fun getDepth :: "FigmaNode \<Rightarrow> nat \<Rightarrow> nat" where
  "getDepth (Node n cs) currentDepth =
     (case cs of
        None \<Rightarrow> currentDepth
      | Some l \<Rightarrow>
          (if l = [] then currentDepth
           else maxList (map (\<lambda>child. getDepth child (currentDepth + 1)) l)))"

record Validation =
  isValid :: bool
  warnings :: "string list"
  errors :: "string list"

definition validateComponent :: "FigmaNode \<Rightarrow> Validation" where
  "validateComponent tree =
     (let node = attrs tree;
          warnings = [];
          errors = [];
          warnings = (if map_of NODE_TO_COMPONENT_MAP (node_type node) = None
                      then warnings @ [''Unknown node type: '' @ node_type node
                                        @ '', will be rendered as View'']
                      else warnings);
          warnings = (case children tree of
                        None \<Rightarrow> warnings
                      | Some l \<Rightarrow>
                          (if length l > 20
                           then warnings @ [''Component has many children (''
                                             @ showNat (length l)
                                             @ ''), consider breaking it down'']
                           else warnings));
          warnings = (if node_width node = None \<or> node_height node = None
                      then warnings @ [''Component has undefined dimensions'']
                      else warnings);
          warnings = (if node_visible node = Some False
                      then warnings @ [''Component is marked as invisible'']
                      else warnings);
          depth = getDepth tree 0;
          warnings = (if depth > 10
                      then warnings @ [''Component has deep nesting ('' @ showNat depth
                                        @ '' levels), consider flattening'']
                      else warnings)
      in \<lparr>isValid = (length errors = 0), warnings = warnings, errors = errors\<rparr>)"

section \<open>ReactNativeGenerator\<close>

record GenerationOptions =
  includeTypes :: bool
  useStyleSheet :: bool
  generateTests :: bool
  formatCode :: bool

text \<open>
  The state of a generator. \<open>generatedStyles\<close> is a JavaScript \<^verbatim>\<open>Map\<close>: an association
  list in insertion order.
\<close>

record Generator =
  options :: GenerationOptions
  generatedStyles :: "(string \<times> ReactNativeStyleProperties) list"
  componentCounter :: nat

record ReactNativeComponentSpec =
  spec_name :: string
  spec_imports :: "string list"
  spec_interfaces :: "string list"
  spec_component :: string
  spec_styles :: string
  spec_exports :: "string list"

datatype GenerationError = GenerationError (err_message: string) (err_componentName: "string option")

text \<open>The constructor: an option that the caller leaves out takes its default.\<close>

definition newGenerator ::
  "bool option \<Rightarrow> bool option \<Rightarrow> bool option \<Rightarrow> bool option \<Rightarrow> Generator" where
  "newGenerator types sheet tests fmt =
     \<lparr>options = \<lparr>includeTypes = (case types of Some b \<Rightarrow> b | None \<Rightarrow> True),
                  useStyleSheet = (case sheet of Some b \<Rightarrow> b | None \<Rightarrow> True),
                  generateTests = (case tests of Some b \<Rightarrow> b | None \<Rightarrow> False),
                  formatCode = (case fmt of Some b \<Rightarrow> b | None \<Rightarrow> True)\<rparr>,
      generatedStyles = [],
      componentCounter = 0\<rparr>"

definition mapHas :: "('k \<times> 'v) list \<Rightarrow> 'k \<Rightarrow> bool" where
  "mapHas m k = (map_of m k \<noteq> None)"

fun mapSet :: "'k \<Rightarrow> 'v \<Rightarrow> ('k \<times> 'v) list \<Rightarrow> ('k \<times> 'v) list" where
  "mapSet k v [] = [(k, v)]"
| "mapSet k v (p # ps) = (if fst p = k then (k, v) # ps else p # mapSet k v ps)"

text \<open>
  The loop of \<^verbatim>\<open>generateStyleForNode\<close> that looks for a free style name:
  \<^verbatim>\<open>while (this.generatedStyles.has(styleName)) { styleName = `${baseStyleName}${counter}`; counter++; }\<close>
\<close>

function uniqueStyleName ::
  "(string \<times> ReactNativeStyleProperties) list \<Rightarrow> string \<Rightarrow> string \<Rightarrow> nat \<Rightarrow> string" where
  "uniqueStyleName reg baseStyleName styleName counter =
     (if mapHas reg styleName
      then uniqueStyleName reg baseStyleName (baseStyleName @ showNat counter) (counter + 1)
      else styleName)"
  by pat_completeness auto

definition generateStyleForNode ::
  "JsRuntime \<Rightarrow> Generator \<Rightarrow> NodeAttrs \<Rightarrow> bool \<Rightarrow> string \<times> Generator" where
  "generateStyleForNode rt g node isRoot =
     (let baseStyleName = (if isRoot then ''container'' else generateStyleName (node_name node));
          styleName = uniqueStyleName (generatedStyles g) baseStyleName baseStyleName 1;
          styleProps = nodeToStyles rt node;
          styleProps = (if isRoot then
                          deleteProp ''top'' (deleteProp ''left''
                            (setProp ''alignSelf'' (VStr ''stretch'') styleProps))
                        else if truthyStr (node_layoutMode node) then
                          deleteProp ''top'' (deleteProp ''left'' styleProps)
                        else styleProps);
          styleProps =
            (case getProp styleProps ''itemSpacing'' of
               Some (VNum spacing) \<Rightarrow>
                 (if truthyStr (node_layoutMode node) \<and> spacing \<noteq> 0 then
                    (let styleProps = deleteProp ''itemSpacing'' styleProps
                     in if node_layoutMode node = Some ''HORIZONTAL''
                        then setProp ''marginRight'' (VNum spacing) styleProps
                        else setProp ''marginBottom'' (VNum spacing) styleProps)
                  else styleProps)
             | _ \<Rightarrow> styleProps);
          styleProps = optimizeStyles styleProps
      in (styleName, g\<lparr>generatedStyles := mapSet styleName styleProps (generatedStyles g)\<rparr>))"

text \<open>
  The expression that \<^verbatim>\<open>generateNodeJSX\<close> writes three times:
  \<^verbatim>\<open>this.options.useStyleSheet ? `styles.${styleName}` : `{${JSON.stringify(this.generatedStyles.get(styleName))}}`\<close>
\<close>

definition styleRef :: "JsRuntime \<Rightarrow> Generator \<Rightarrow> string \<Rightarrow> string" where
  "styleRef rt g styleName =
     (if useStyleSheet (options g) then ''styles.'' @ styleName
      else ''{'' @ (case map_of (generatedStyles g) styleName of
                      Some st \<Rightarrow> stringifyStyle rt st
                    | None \<Rightarrow> ''undefined'') @ ''}'')"

function generateNodeJSX ::
    "JsRuntime \<Rightarrow> Generator \<Rightarrow> FigmaNode \<Rightarrow> nat \<Rightarrow> bool \<Rightarrow> string \<times> Generator"
  and generateChildrenJSX ::
    "JsRuntime \<Rightarrow> Generator \<Rightarrow> FigmaNode \<Rightarrow> nat \<Rightarrow> string \<times> Generator"
  and mapNodeJSX ::
    "JsRuntime \<Rightarrow> Generator \<Rightarrow> FigmaNode list \<Rightarrow> nat \<Rightarrow> string list \<times> Generator" where
  "generateNodeJSX rt g (Node node cs) depth isRoot =
     (let indent = repeat ''    '' (depth + 1)
      in if \<not> shouldRenderNode (Node node cs) then ([], g)
         else
           (let componentType = getComponentType node;
                (styleName, g1) = generateStyleForNode rt g node isRoot
            in if node_type node = ''TEXT'' then
                 (let textContent = extractTextContent node;
                      styleReference = styleRef rt g1 styleName
                  in (indent @ ''<Text style={'' @ styleReference @ ''}>'' @ nl
                      @ indent @ ''  {'' @ stringifyString rt textContent @ ''}'' @ nl
                      @ indent @ ''</Text>'', g1))
               else if shouldRenderAsImage node then
                 (let styleReference = styleRef rt g1 styleName
                  in (indent @ ''<View style={'' @ styleReference @ ''}>'' @ nl
                      @ indent @ ''  {/* TODO: Replace with Image component for vector graphics */}'' @ nl
                      @ indent @ ''</View>'', g1))
               else
                 (let (childrenJSX, g2) = generateChildrenJSX rt g1 (Node node cs) (depth + 1);
                      styleReference =
                        (if isRoot \<and> includeTypes (options g2)
                         then ''['' @ styleRef rt g2 styleName @ '', style]''
                         else styleRef rt g2 styleName)
                  in if trim childrenJSX \<noteq> [] then
                       (indent @ ''<'' @ componentType @ '' style={'' @ styleReference @ ''}>'' @ nl
                        @ childrenJSX @ nl
                        @ indent @ ''</'' @ componentType @ ''>'', g2)
                     else
                       (indent @ ''<'' @ componentType @ '' style={'' @ styleReference @ ''} />'',
                        g2))))"
| "generateChildrenJSX rt g (Node node cs) depth =
     (case cs of
        None \<Rightarrow> ([], g)
      | Some l \<Rightarrow>
          (if l = [] then ([], g)
           else (let (jsxs, g1) = mapNodeJSX rt g (filter shouldRenderNode l) depth
                 in (join nl (filter (\<lambda>jsx. trim jsx \<noteq> []) jsxs), g1))))"
| "mapNodeJSX rt g [] depth = ([], g)"
| "mapNodeJSX rt g (child # rest) depth =
     (let (jsx, g1) = generateNodeJSX rt g child depth False;
          (jsxs, g2) = mapNodeJSX rt g1 rest depth
      in (jsx # jsxs, g2))"
  by pat_completeness auto

definition generateImports :: "Generator \<Rightarrow> Analysis \<Rightarrow> string list" where
  "generateImports g analysis =
     (let rnComponents = [''View''];
          rnComponents = (if hasText analysis then rnComponents @ [''Text''] else rnComponents);
          rnComponents = (if useStyleSheet (options g)
                          then rnComponents @ [''StyleSheet''] else rnComponents);
          rnComponents = (if includeTypes (options g)
                          then (let rnComponents = rnComponents @ [''ViewStyle'']
                                in if hasText analysis
                                   then rnComponents @ [''TextStyle''] else rnComponents)
                          else rnComponents)
      in [''import React from '' @ sq @ ''react'' @ sq @ '';'',
          ''import { '' @ join '', '' (sort rnComponents) @ '' } from '' @ sq
            @ ''react-native'' @ sq @ '';''])"

definition generateComponentJSX ::
  "JsRuntime \<Rightarrow> Generator \<Rightarrow> FigmaNode \<Rightarrow> string \<Rightarrow> Analysis \<Rightarrow> string \<times> Generator" where
  "generateComponentJSX rt g node componentName analysis =
     (let propsType = (if includeTypes (options g)
                       then '': React.FC<'' @ componentName @ ''Props>'' else []);
          props = (if includeTypes (options g) then ''{ style, ...props }'' else ''props'');
          (componentBody, g1) = generateNodeJSX rt g node 0 True
      in (''const '' @ componentName @ propsType @ '' = ('' @ props @ '') => {'' @ nl
          @ ''  return ('' @ nl @ componentBody @ nl @ ''  );'' @ nl
          @ ''};'', g1))"

definition generateStyles :: "JsRuntime \<Rightarrow> Generator \<Rightarrow> string" where
  "generateStyles rt g =
     (if length (generatedStyles g) = 0 then []
      else if \<not> useStyleSheet (options g) then []
      else (let styleEntries =
                  join ('','' @ nl)
                    (map (\<lambda>(name, styles). ''  '' @ name @ '': '' @ stylesToString rt styles 2)
                       (generatedStyles g))
            in ''const styles = StyleSheet.create({'' @ nl @ styleEntries @ nl @ ''});''))"

text \<open>
  \<^verbatim>\<open>generateComponent\<close>. A \<^verbatim>\<open>throw\<close> is the value \<open>Inl\<close>; the state of the generator
  is returned in both cases.
\<close>

definition generateComponent ::
  "JsRuntime \<Rightarrow> Generator \<Rightarrow> FigmaNode \<Rightarrow> string option
    \<Rightarrow> (GenerationError + ReactNativeComponentSpec) \<times> Generator" where
  "generateComponent rt g node componentName =
     (let g = g\<lparr>generatedStyles := [], componentCounter := 0\<rparr>;
          finalComponentName = (if truthyStr componentName then the componentName
                                else generateComponentName (node_name (attrs node)));
          analysis = analyzeComponent node;
          validation = validateComponent node
      in if \<not> isValid validation then
           (Inl (GenerationError
                   (''Component validation failed: '' @ join '', '' (errors validation))
                   (Some finalComponentName)), g)
         else
           (let imports = generateImports g analysis;
                interfaces = (if includeTypes (options g)
                              then [generatePropsInterface finalComponentName analysis] else []);
                (componentJSX, g1) = generateComponentJSX rt g node finalComponentName analysis;
                styles = generateStyles rt g1;
                exports = [''export default '' @ finalComponentName @ '';'']
            in (Inr \<lparr>spec_name = finalComponentName,
                      spec_imports = imports,
                      spec_interfaces = interfaces,
                      spec_component = componentJSX,
                      spec_styles = styles,
                      spec_exports = exports\<rparr>, g1)))"

text \<open>\<^verbatim>\<open>code.replace(/\n\n\n+/g, '\n\n')\<close>: a run of three line feeds or more becomes two.\<close>

function collapseNewlines :: "string \<Rightarrow> string" where
  "collapseNewlines [] = []"
| "collapseNewlines (c # cs) =
     (if c = CHR 0x0A \<and> length (takeWhile (\<lambda>d. d = CHR 0x0A) cs) \<ge> 2
      then nl @ nl @ collapseNewlines (dropWhile (\<lambda>d. d = CHR 0x0A) cs)
      else c # collapseNewlines cs)"
  by pat_completeness auto
termination
  by (relation "measure length") (auto simp: length_dropWhile_le less_Suc_eq_le)

text \<open>
  \<^verbatim>\<open>code.replace(/^\s*\n/gm, '\n')\<close>. The flag says whether the position is the start of
  a line (the start of the text, or after a line feed or a carriage return). There the
  greedy \<^verbatim>\<open>\s*\<close> takes the whole run of white space and gives back up to the last line
  feed of the run; the match, when the run has a line feed, is replaced by one line feed
  and the search goes on after it.
\<close>

function removeBlankLines :: "bool \<Rightarrow> string \<Rightarrow> string" where
  "removeBlankLines lineStart [] = []"
| "removeBlankLines lineStart (c # cs) =
     (let run = takeWhile isSpace (c # cs)
      in if lineStart \<and> CHR 0x0A \<in> set run
         then nl @ removeBlankLines True
                (drop (length run - length (takeWhile (\<lambda>d. d \<noteq> CHR 0x0A) (rev run))) (c # cs))
         else c # removeBlankLines (c = CHR 0x0A \<or> c = CHR 0x0D) cs)"
  by pat_completeness auto
termination
proof (relation "measure (\<lambda>(b, s). length s)", goal_cases)
  case 1
  show ?case by simp
next
  case (2 lineStart c cs run)
  have "length (takeWhile (\<lambda>d. d \<noteq> CHR 0x0A) (rev run)) < length run"
  proof -
    from 2 have "CHR 0x0A \<in> set (rev run)" by simp
    then have "takeWhile (\<lambda>d. d \<noteq> CHR 0x0A) (rev run) \<noteq> rev run"
      by (metis (mono_tags, lifting) set_takeWhileD)
    then have "length (takeWhile (\<lambda>d. d \<noteq> CHR 0x0A) (rev run)) \<noteq> length (rev run)"
      by (metis takeWhile_eq_take take_all order_refl)
    moreover have "length (takeWhile (\<lambda>d. d \<noteq> CHR 0x0A) (rev run)) \<le> length (rev run)"
      by (rule length_takeWhile_le)
    ultimately show ?thesis by simp
  qed
  then show ?case by simp
next
  case 3
  show ?case by simp
qed

definition formatCodeText :: "string \<Rightarrow> string" where
  "formatCodeText code = trim (removeBlankLines True (collapseNewlines code)) @ nl"

definition generateFileContent :: "Generator \<Rightarrow> ReactNativeComponentSpec \<Rightarrow> string" where
  "generateFileContent g componentSpec =
     (let sections =
            [join nl (spec_imports componentSpec), []]
            @ (if length (spec_interfaces componentSpec) > 0
               then [join (nl @ nl) (spec_interfaces componentSpec), []] else [])
            @ [spec_component componentSpec, []]
            @ (if spec_styles componentSpec \<noteq> [] then [spec_styles componentSpec, []] else [])
            @ [join nl (spec_exports componentSpec)];
          content = join nl (filter (\<lambda>section. section \<noteq> []) sections)
      in if formatCode (options g) then formatCodeText content else content)"

definition generateTestFile :: "Generator \<Rightarrow> ReactNativeComponentSpec \<Rightarrow> string" where
  "generateTestFile g componentSpec =
     (if \<not> generateTests (options g) then []
      else ''import React from '' @ sq @ ''react'' @ sq @ '';'' @ nl
           @ ''import { render } from '' @ sq @ ''@testing-library/react-native'' @ sq @ '';'' @ nl
           @ ''import '' @ spec_name componentSpec @ '' from '' @ sq @ ''./''
           @ spec_name componentSpec @ sq @ '';'' @ nl @ nl
           @ ''describe('' @ sq @ spec_name componentSpec @ sq @ '', () => {'' @ nl
           @ ''  it('' @ sq @ ''renders correctly'' @ sq @ '', () => {'' @ nl
           @ ''    const { toJSON } = render(<'' @ spec_name componentSpec @ '' />);'' @ nl
           @ ''    expect(toJSON()).toMatchSnapshot();'' @ nl
           @ ''  });'' @ nl
           @ ''});'' @ nl)"

section \<open>Reference renderings for worked examples\<close>

text \<open>
  The values of the decimal digits and the number a decimal numeral denotes: the left
  inverse of \<open>showNat\<close>, by which the search for a free style name ends.
\<close>

definition digitVal :: "char \<Rightarrow> nat" where
  "digitVal c = (case map_of (zip digitChars [0 ..< 10]) c of Some d \<Rightarrow> d | None \<Rightarrow> 0)"

definition readNat :: "string \<Rightarrow> nat" where
  "readNat s = foldl (\<lambda>a c. 10 * a + digitVal c) 0 s"

text \<open>
  A runtime for the examples. It prints a natural number in decimal and one half as
  \<^verbatim>\<open>0.5\<close>, as \<^verbatim>\<open>Number.prototype.toString\<close> does; its product is the exact one, which is
  the product of two doubles wherever the exact product is itself a double, as for the
  halves of the examples; it quotes a string without escapes and prints a style object as
  its number of keys. The theorems hold for every runtime.
\<close>

definition exampleRuntime :: JsRuntime where
  "exampleRuntime =
     \<lparr>numberToString = (\<lambda>x. if x = 1 / 2 then ''0.5'' else showNat (nat \<lfloor>x\<rfloor>)),
      multiply = (\<lambda>x y. x * y),
      stringifyString = (\<lambda>s. [CHR 0x22] @ s @ [CHR 0x22]),
      stringifyStyle = (\<lambda>st. showNat (length st))\<rparr>"

text \<open>A node with no optional field set, and paints, for the examples.\<close>

definition blankAttrs :: NodeAttrs where
  "blankAttrs =
     \<lparr>node_id = ''1:1'', node_name = ''Icon'', node_type = ''FRAME'',
      node_x = None, node_y = None, node_width = None, node_height = None,
      node_fills = None, node_strokes = None, node_style = None, node_cornerRadius = None,
      node_characters = None, node_effects = None, node_visible = None, node_opacity = None,
      node_layoutMode = None, node_paddingLeft = None, node_paddingRight = None,
      node_paddingTop = None, node_paddingBottom = None, node_itemSpacing = None,
      node_counterAxisAlignItems = None, node_primaryAxisAlignItems = None\<rparr>"

definition red :: FigmaColor where
  "red = \<lparr>color_r = 1, color_g = 0, color_b = 0, color_a = None\<rparr>"

definition blue :: FigmaColor where
  "blue = \<lparr>color_r = 0, color_g = 0, color_b = 1, color_a = None\<rparr>"

definition redFill :: FigmaFill where
  "redFill = \<lparr>fill_type = SOLID, fill_color = Some red, fill_opacity = None,
              fill_visible = None\<rparr>"

definition colorlessFill :: FigmaFill where
  "colorlessFill = \<lparr>fill_type = SOLID, fill_color = None, fill_opacity = None,
                    fill_visible = None\<rparr>"

definition hiddenRedStroke :: FigmaStroke where
  "hiddenRedStroke = \<lparr>stroke_type = SOLID, stroke_color = Some red, stroke_opacity = None,
                      stroke_visible = Some False\<rparr>"

definition blueStroke :: FigmaStroke where
  "blueStroke = \<lparr>stroke_type = SOLID, stroke_color = Some blue, stroke_opacity = None,
                 stroke_visible = None\<rparr>"

definition positionedLeaf :: FigmaNode where
  "positionedLeaf =
     Node (blankAttrs\<lparr>node_x := Some 0, node_y := Some 0, node_fills := Some [redFill]\<rparr>) None"

definition hiddenLeaf :: FigmaNode where
  "hiddenLeaf =
     Node (blankAttrs\<lparr>node_x := Some 0, node_y := Some 0, node_fills := Some [redFill],
                      node_visible := Some False\<rparr>) None"

definition exampleSpec :: ReactNativeComponentSpec where
  "exampleSpec =
     \<lparr>spec_name = ''Icon'', spec_imports = [''import A;''], spec_interfaces = [],
      spec_component = ''const Icon = 1;'', spec_styles = [],
      spec_exports = [''export default Icon;'']\<rparr>"

text \<open>A chain of nested frames, and an invisible root with twenty-one children of depth ten.\<close>

fun chain :: "nat \<Rightarrow> FigmaNode" where
  "chain 0 = Node blankAttrs None"
| "chain (Suc n) = Node blankAttrs (Some [chain n])"

definition crowdedTree :: FigmaNode where
  "crowdedTree =
     Node (blankAttrs\<lparr>node_visible := Some False\<rparr>) (Some (replicate 21 (chain 10)))"

text \<open>A button with a label, an empty frame that is not renderable, and icons that share a name.\<close>

definition loginText :: FigmaNode where
  "loginText =
     Node (blankAttrs\<lparr>node_name := ''Label'', node_type := ''TEXT'',
                      node_characters := Some ''Login''\<rparr>) None"

definition emptyFrame :: FigmaNode where
  "emptyFrame = Node blankAttrs None"

definition loginButton :: FigmaNode where
  "loginButton =
     Node (blankAttrs\<lparr>node_name := ''Login Button'', node_fills := Some [redFill]\<rparr>)
       (Some [emptyFrame, loginText, hiddenLeaf, positionedLeaf])"


definition iconNamed :: "string \<Rightarrow> FigmaNode" where
  "iconNamed n = Node (blankAttrs\<lparr>node_name := n, node_fills := Some [redFill]\<rparr>) None"

definition twoIcons :: FigmaNode where
  "twoIcons =
     Node (blankAttrs\<lparr>node_name := ''Row'', node_fills := Some [redFill]\<rparr>)
       (Some [iconNamed ''Icon'', iconNamed ''Icon''])"

definition threeIcons :: FigmaNode where
  "threeIcons =
     Node (blankAttrs\<lparr>node_name := ''Row'', node_fills := Some [redFill]\<rparr>)
       (Some [iconNamed ''Icon1'', iconNamed ''Icon'', iconNamed ''Icon''])"

definition containerOnly :: Generator where
  "containerOnly = (newGenerator None None None None)\<lparr>generatedStyles := [(''container'', [])]\<rparr>"

section \<open>The specification's wording, for comparison\<close>


text \<open>
  The layout classification in the specification's words: flex for a node with an
  auto-layout block; otherwise mixed when more than one child is positioned, the node has
  more than three children in total and at least one child carries explicit x and y; and
  absolute in every other case.
\<close>

definition positioned :: "FigmaNode \<Rightarrow> bool" where
  "positioned child = (node_x (attrs child) \<noteq> None \<and> node_y (attrs child) \<noteq> None)"

definition childList :: "FigmaNode \<Rightarrow> FigmaNode list" where
  "childList tree = (case children tree of None \<Rightarrow> [] | Some l \<Rightarrow> l)"

definition spec_layoutType :: "FigmaNode \<Rightarrow> string" where
  "spec_layoutType tree =
     (if node_layoutMode (attrs tree) \<noteq> None then ''flex''
      else if length (filter positioned (childList tree)) > 1 \<and> length (childList tree) > 3
              \<and> list_ex positioned (childList tree) then ''mixed''
      else ''absolute'')"

section \<open>Notions for the statements about the generator\<close>

text \<open>
  A later state of a generator extends an earlier one: the options are the same, the
  registry has grown at its end, and its keys have stayed distinct if they were.
\<close>

definition extends :: "Generator \<Rightarrow> Generator \<Rightarrow> bool" where
  "extends g g' =
     (options g' = options g
      \<and> (\<exists>added. generatedStyles g' = generatedStyles g @ added)
      \<and> (distinct (map fst (generatedStyles g)) \<longrightarrow> distinct (map fst (generatedStyles g'))))"

text \<open>
  The base style name of a node, as \<^verbatim>\<open>generateStyleForNode\<close> takes it:
  \<^verbatim>\<open>isRoot ? 'container' : ComponentParser.generateStyleName(node.name)\<close>.
\<close>

definition baseName :: "NodeAttrs \<Rightarrow> bool \<Rightarrow> string" where
  "baseName node isRoot = (if isRoot then ''container'' else generateStyleName (node_name node))"

text \<open>
  The names that the loop of \<^verbatim>\<open>generateStyleForNode\<close> tries, in order: the base name,
  then the base name followed by 1, by 2, and so on.
\<close>

definition candidate :: "string \<Rightarrow> nat \<Rightarrow> string" where
  "candidate baseStyleName k = (if k = 0 then baseStyleName else baseStyleName @ showNat k)"

text \<open>
  A sequence of calls of \<^verbatim>\<open>generateStyleForNode\<close>, one after the other on the same
  registry, as one run makes them, and the names that they return.
\<close>

fun registerAll ::
  "JsRuntime \<Rightarrow> Generator \<Rightarrow> (NodeAttrs \<times> bool) list \<Rightarrow> string list \<times> Generator" where
  "registerAll rt g [] = ([], g)"
| "registerAll rt g ((node, isRoot) # rest) =
     (let (styleName, g1) = generateStyleForNode rt g node isRoot;
          (styleNames, g2) = registerAll rt g1 rest
      in (styleName # styleNames, g2))"

text \<open>
  The reference to the style registered for a node: \<^verbatim>\<open>styles.NAME\<close> under
  \<^verbatim>\<open>useStyleSheet\<close>, with the name that \<^verbatim>\<open>generateStyleForNode\<close> returns for the node,
  and the inline literal of the style stored under that name otherwise.
\<close>

definition ownStyleRef :: "JsRuntime \<Rightarrow> Generator \<Rightarrow> NodeAttrs \<Rightarrow> bool \<Rightarrow> string" where
  "ownStyleRef rt g node isRoot =
     (case generateStyleForNode rt g node isRoot of (styleName, g1) \<Rightarrow> styleRef rt g1 styleName)"

text \<open>
  The markups of the renderable children of a node, in their original order: each child
  is emitted one level deeper, as a node that is not the root, on the registry that the
  children before it have left.
\<close>

definition childrenMarkup ::
  "JsRuntime \<Rightarrow> Generator \<Rightarrow> FigmaNode \<Rightarrow> nat \<Rightarrow> bool \<Rightarrow> string list" where
  "childrenMarkup rt g tree depth isRoot =
     fst (mapNodeJSX rt (snd (generateStyleForNode rt g (attrs tree) isRoot))
            (filter shouldRenderNode (childList tree)) (depth + 1))"

text \<open>
  The style attribute of a container: the composition with the \<^verbatim>\<open>style\<close> prop for the
  root when type declarations are on, the reference alone otherwise.
\<close>

definition styleAttribute :: "JsRuntime \<Rightarrow> Generator \<Rightarrow> NodeAttrs \<Rightarrow> bool \<Rightarrow> string" where
  "styleAttribute rt g node isRoot =
     (if isRoot \<and> includeTypes (options g)
      then ''['' @ ownStyleRef rt g node isRoot @ '', style]''
      else ownStyleRef rt g node isRoot)"

section \<open>Termination of the recursive functions\<close>

lemma digitVal_digitChar: "d < 10 \<Longrightarrow> digitVal (digitChar d) = d"
proof -
  assume "d < 10"
  then have "d \<in> {0, 1, 2, 3, 4, 5, 6, 7, 8, 9}" by auto
  then show ?thesis
    by (auto simp: digitVal_def digitChar_def digitChars_def upt_conv_Cons)
qed

lemma readNat_showNat: "readNat (showNat n) = n"
proof (induction n rule: showNat.induct)
  case (1 n)
  show ?case
  proof (cases "n < 10")
    case True
    then show ?thesis by (simp add: showNat.simps[of n] readNat_def digitVal_digitChar)
  next
    case False
    with 1 have "readNat (showNat (n div 10)) = n div 10" by simp
    with False show ?thesis
      by (simp add: showNat.simps[of n] readNat_def digitVal_digitChar)
  qed
qed

lemma showNat_inj: "showNat m = showNat n \<Longrightarrow> m = n"
  by (metis readNat_showNat)

lemma finite_suffixes: "finite {k. mapHas reg (b @ showNat k)}"
proof -
  have "{k. mapHas reg (b @ showNat k)} \<subseteq> (\<lambda>k. b @ showNat k) -` (fst ` set reg)"
    by (auto simp: mapHas_def map_of_eq_None_iff)
  moreover have "inj (\<lambda>k. b @ showNat k)"
    by (auto simp: inj_on_def dest: showNat_inj)
  ultimately show ?thesis
    by (meson finite_vimageI finite_imageI finite_set finite_subset)
qed

text \<open>
  Each turn of the loop passes one registered name of the form base + counter; only
  finitely many are registered.
\<close>

termination uniqueStyleName
proof (relation "measure (\<lambda>(reg, b, s, c).
          card {k. c \<le> k \<and> mapHas reg (b @ showNat k)} + (if mapHas reg s then 1 else 0))",
       goal_cases)
  case 1
  show ?case by simp
next
  case (2 reg b s c)
  let ?A = "{k. c \<le> k \<and> mapHas reg (b @ showNat k)}"
  let ?B = "{k. c + 1 \<le> k \<and> mapHas reg (b @ showNat k)}"
  have fin: "finite ?B"
    by (rule finite_subset[OF _ finite_suffixes[of reg b]]) auto
  have "?A = (if mapHas reg (b @ showNat c) then insert c ?B else ?B)"
    by (auto simp: le_Suc_eq Suc_le_eq) (metis le_neq_implies_less)+
  then have "card ?A = card ?B + (if mapHas reg (b @ showNat c) then 1 else 0)"
    using fin by auto
  with 2 show ?case by simp
qed

declare uniqueStyleName.simps [simp del]

lemma size_filter_le: "size_list f (filter P xs) \<le> size_list f xs"
  by (induction xs) auto

termination generateNodeJSX
proof (relation "measure (\<lambda>x. case x of
            Inl (rt, g, n, d, r) \<Rightarrow> 2 * size n + 1
          | Inr (Inl (rt, g, n, d)) \<Rightarrow> 2 * size n
          | Inr (Inr (rt, g, l, d)) \<Rightarrow> 2 * size_list size l + 1)", goal_cases)
  case 1
  show ?case by simp
next
  case 2
  show ?case by simp
next
  case (3 rt g node cs depth l)
  have "size_list size (filter shouldRenderNode l) \<le> size_list size l"
    by (rule size_filter_le)
  with 3 show ?case by simp
next
  case 4
  show ?case by simp
next
  case 5
  show ?case by simp
qed

section \<open>Evaluation of the examples\<close>

lemma showNat_numeral:
  "showNat (numeral k) =
     (if (numeral k :: nat) < 10 then [digitChar (numeral k)]
      else showNat (numeral k div 10) @ [digitChar (numeral k mod 10)])"
  "showNat 0 = [digitChar 0]"
  "showNat (Suc 0) = [digitChar (Suc 0)]"
  by (simp_all add: showNat.simps[of "numeral k"] showNat.simps[of 0] showNat.simps[of "Suc 0"])

lemma Math_round_of_int: "Math_round (of_int n) = of_int n"
proof -
  have "\<lfloor>(of_int n :: rat) + 1 / 2\<rfloor> = n"
    by (rule floor_unique) simp_all
  then show ?thesis by (simp add: Math_round_def)
qed

lemma Math_round_numeral:
  "Math_round (numeral k) = numeral k"
  "Math_round 0 = 0"
  "Math_round 1 = 1"
  using Math_round_of_int[of "numeral k"] Math_round_of_int[of 0] Math_round_of_int[of 1]
  by simp_all

lemma exampleRuntime_simps:
  "numberToString exampleRuntime x = (if x = 1 / 2 then ''0.5'' else showNat (nat \<lfloor>x\<rfloor>))"
  "multiply exampleRuntime x y = x * y"
  "stringifyString exampleRuntime s = [CHR 0x22] @ s @ [CHR 0x22]"
  "stringifyStyle exampleRuntime st = showNat (length st)"
  by (simp_all add: exampleRuntime_def)

lemmas example_simps =
  exampleRuntime_simps Math_round_numeral showNat_numeral digitChar_def digitChars_def Let_def
  red_def blue_def redFill_def colorlessFill_def hiddenRedStroke_def blueStroke_def blankAttrs_def

section \<open>Color formatting\<close>

text \<open>
  C9. For every color whose alpha field is absent, \<^verbatim>\<open>colorToString\<close> takes the alpha as
  exactly 1 and returns the form \<^verbatim>\<open>rgb(R, G, B)\<close>, never the \<^verbatim>\<open>rgba\<close> form.
\<close>

theorem colorToString_alpha_absent:
  "color_a color = None \<Longrightarrow>
   colorToString rt color =
     ''rgb('' @ numberToString rt (Math_round (color_r color * 255)) @ '', ''
     @ numberToString rt (Math_round (color_g color * 255)) @ '', ''
     @ numberToString rt (Math_round (color_b color * 255)) @ '')''"
  by (simp add: colorToString_def)

theorem colorToString_alpha_absent_witness:
  "color_a red = None \<and> colorToString exampleRuntime red = ''rgb(255, 0, 0)''"
proof -
  have h: "color_a red = None" by (simp add: red_def)
  show ?thesis
    using h colorToString_alpha_absent [OF h, of exampleRuntime]
    by (simp add: example_simps)
qed




section \<open>Style optimization\<close>

lemma getProp_deleteProp: "getProp (deleteProp k s) k' = (if k' = k then None else getProp s k')"
  by (induction s) (auto simp: getProp_def deleteProp_def)

lemma getProp_deleteIf:
  "getProp (deleteIf k v s) k' = (if k' = k \<and> getProp s k = Some v then None else getProp s k')"
  by (simp add: deleteIf_def getProp_deleteProp)

lemma deleteIf_id: "getProp s k \<noteq> Some v \<Longrightarrow> deleteIf k v s = s"
  by (simp add: deleteIf_def)

lemma deleteIf_Some: "getProp (deleteIf k v s) k' = Some x \<Longrightarrow> getProp s k' = Some x"
  by (simp add: getProp_deleteIf split: if_splits)

lemma optimizeStyles_no_default:
  "getProp (optimizeStyles s) ''opacity'' \<noteq> Some (VNum 1)"
  "getProp (optimizeStyles s) ''borderWidth'' \<noteq> Some (VNum 0)"
  "getProp (optimizeStyles s) ''borderRadius'' \<noteq> Some (VNum 0)"
  "getProp (optimizeStyles s) ''padding'' \<noteq> Some (VNum 0)"
  "getProp (optimizeStyles s) ''margin'' \<noteq> Some (VNum 0)"
  "getProp (optimizeStyles s) ''flex'' \<noteq> Some (VNum 0)"
  by (simp_all add: optimizeStyles_def Let_def getProp_deleteIf)

lemma optimizeStyles_fixed:
  assumes "getProp t ''opacity'' \<noteq> Some (VNum 1)"
    and "getProp t ''borderWidth'' \<noteq> Some (VNum 0)"
    and "getProp t ''borderRadius'' \<noteq> Some (VNum 0)"
    and "getProp t ''padding'' \<noteq> Some (VNum 0)"
    and "getProp t ''margin'' \<noteq> Some (VNum 0)"
    and "getProp t ''flex'' \<noteq> Some (VNum 0)"
  shows "optimizeStyles t = t"
  using assms by (simp add: optimizeStyles_def Let_def deleteIf_id)

lemma optimizeStyles_Some: "getProp (optimizeStyles s) k = Some v \<Longrightarrow> getProp s k = Some v"
  unfolding optimizeStyles_def Let_def
  by (blast dest: deleteIf_Some)

text \<open>
  C10. \<^verbatim>\<open>optimizeStyles\<close> is idempotent, and a key that it does not delete keeps its
  value.
\<close>

theorem optimizeStyles_idempotent:
  "optimizeStyles (optimizeStyles s) = optimizeStyles s
   \<and> (\<forall>k v. getProp (optimizeStyles s) k = Some v \<longrightarrow> getProp s k = Some v)"
proof
  show "optimizeStyles (optimizeStyles s) = optimizeStyles s"
    by (rule optimizeStyles_fixed) (rule optimizeStyles_no_default)+
  show "\<forall>k v. getProp (optimizeStyles s) k = Some v \<longrightarrow> getProp s k = Some v"
    by (blast dest: optimizeStyles_Some)
qed

theorem optimizeStyles_idempotent_witness:
  "optimizeStyles [(''opacity'', VNum 1), (''width'', VNum 10), (''flex'', VNum 0)]
     = [(''width'', VNum 10)]
   \<and> optimizeStyles (optimizeStyles [(''opacity'', VNum 1), (''width'', VNum 10), (''flex'', VNum 0)])
     = [(''width'', VNum 10)]
   \<and> getProp (optimizeStyles [(''opacity'', VNum 1), (''width'', VNum 10), (''flex'', VNum 0)])
       ''width'' = Some (VNum 10)
   \<and> getProp [(''opacity'', VNum 1), (''width'', VNum 10), (''flex'', VNum 0)] ''width''
     = Some (VNum 10)"
proof -
  let ?s = "[(''opacity'', VNum 1), (''width'', VNum 10), (''flex'', VNum 0)]"
  have e: "optimizeStyles ?s = [(''width'', VNum 10)]"
    by code_simp
  have g: "getProp (optimizeStyles ?s) ''width'' = Some (VNum 10)"
    by (simp add: e getProp_def)
  from optimizeStyles_idempotent [of ?s]
  have i: "optimizeStyles (optimizeStyles ?s) = optimizeStyles ?s"
    and p: "getProp (optimizeStyles ?s) ''width'' = Some (VNum 10)
              \<longrightarrow> getProp ?s ''width'' = Some (VNum 10)"
    by blast+
  from p g have "getProp ?s ''width'' = Some (VNum 10)" by blast
  with e g i show ?thesis by simp
qed

section \<open>Borders\<close>

text \<open>
  C3 says that the border comes from the first visible solid stroke. \<^verbatim>\<open>nodeToStyles\<close>
  reads \<^verbatim>\<open>node.strokes[0]\<close> and asks only whether it has a color: here the first stroke
  is hidden and the second one is visible, solid and blue, and the border is the red of
  the hidden stroke.
\<close>

theorem nodeToStyles_hidden_first_stroke:
  "nodeToStyles exampleRuntime
     (blankAttrs\<lparr>node_fills := Some [redFill], node_strokes := Some [hiddenRedStroke, blueStroke]\<rparr>)
   = [(''backgroundColor'', VStr ''rgb(255, 0, 0)''), (''borderColor'', VStr ''rgb(255, 0, 0)''),
      (''borderWidth'', VNum 1), (''borderStyle'', VStr ''solid'')]"
  by (simp add: nodeToStyles_def strokeStyles_def layoutStyles_def effectStyles_def setWhen_def
        fillToBackgroundColor_def colorToString_def truthyStr_def example_simps)

section \<open>Layout classification\<close>

lemma positioned_eq:
  "(\<lambda>child. node_x (attrs child) \<noteq> None \<and> node_y (attrs child) \<noteq> None) = positioned"
  by (simp add: positioned_def fun_eq_iff)

text \<open>
  C4, as the code has it. The layout classification is flex when the layout mode of the
  node is a non-empty string; otherwise it is mixed exactly when more than three children
  are renderable and some child, renderable or not, carries both x and y; otherwise it
  is absolute.
\<close>

theorem analyzeComponent_layoutType:
  "layoutType (analyzeComponent tree) =
     (if truthyStr (node_layoutMode (attrs tree)) then ''flex''
      else if length (filter shouldRenderNode (childList tree)) > 3
              \<and> list_ex positioned (childList tree) then ''mixed''
      else ''absolute'')"
proof (cases tree)
  case (Node node cs)
  show ?thesis
  proof (cases cs)
    case None
    with Node show ?thesis
      by (simp add: analyzeComponent_def childList_def Let_def)
  next
    case (Some l)
    with Node show ?thesis
      unfolding analyzeComponent_def positioned_eq
      by (simp add: childList_def Let_def)
  qed
qed

theorem analyzeComponent_layoutType_witness:
  "layoutType (analyzeComponent
     (Node blankAttrs (Some [positionedLeaf, positionedLeaf, positionedLeaf, positionedLeaf])))
   = ''mixed''"
  using analyzeComponent_layoutType
    [of "Node blankAttrs (Some [positionedLeaf, positionedLeaf, positionedLeaf, positionedLeaf])"]
  by (simp add: childList_def positioned_def positionedLeaf_def hasVisualContent_def
        truthyStr_def example_simps)

text \<open>
  C4 as stated fails: the node has four children in total, each with explicit x and y,
  but only two of them are renderable, and the classification is absolute.
\<close>

theorem analyzeComponent_layoutType_counterexample:
  "spec_layoutType (Node blankAttrs (Some [positionedLeaf, positionedLeaf, hiddenLeaf, hiddenLeaf]))
     = ''mixed''
   \<and> layoutType (analyzeComponent
        (Node blankAttrs (Some [positionedLeaf, positionedLeaf, hiddenLeaf, hiddenLeaf])))
     = ''absolute''"
  by (simp add: spec_layoutType_def analyzeComponent_def childList_def positioned_def
        positionedLeaf_def hiddenLeaf_def hasVisualContent_def truthyStr_def example_simps)



section \<open>File content\<close>

text \<open>
  C8. \<^verbatim>\<open>generateFileContent\<close> reads the options of the generator and nothing else of its
  state: two calls on the same ComponentSpec under the same options give the same text,
  whatever happened to the style registry and the counter in between.
\<close>

theorem generateFileContent_deterministic:
  "options g1 = options g2 \<Longrightarrow> generateFileContent g1 spec = generateFileContent g2 spec"
  by (simp add: generateFileContent_def)

theorem generateFileContent_deterministic_witness:
  "options (newGenerator None None None None)
     = options ((newGenerator None None None None)\<lparr>generatedStyles := [(''icon'', [])],
                                                     componentCounter := 7\<rparr>)
   \<and> generateFileContent (newGenerator None None None None) exampleSpec
     = generateFileContent ((newGenerator None None None None)\<lparr>generatedStyles := [(''icon'', [])],
                                                     componentCounter := 7\<rparr>) exampleSpec"
proof -
  have h: "options (newGenerator None None None None)
     = options ((newGenerator None None None None)\<lparr>generatedStyles := [(''icon'', [])],
                                                     componentCounter := 7\<rparr>)"
    by simp
  show ?thesis
    using h generateFileContent_deterministic [OF h, of exampleSpec] by simp
qed

section \<open>Validation and generation\<close>

lemma validateComponent_valid:
  "errors (validateComponent node) = []" "isValid (validateComponent node)"
  by (simp_all add: validateComponent_def Let_def)

lemma validateComponent_warnings:
  "warnings (validateComponent node) =
     (if map_of NODE_TO_COMPONENT_MAP (node_type (attrs node)) = None
      then [''Unknown node type: '' @ node_type (attrs node) @ '', will be rendered as View'']
      else [])
     @ (if 20 < length (childList node)
        then [''Component has many children ('' @ showNat (length (childList node))
               @ ''), consider breaking it down'']
        else [])
     @ (if node_width (attrs node) = None \<or> node_height (attrs node) = None
        then [''Component has undefined dimensions''] else [])
     @ (if node_visible (attrs node) = Some False
        then [''Component is marked as invisible''] else [])
     @ (if 10 < getDepth node 0
        then [''Component has deep nesting ('' @ showNat (getDepth node 0)
               @ '' levels), consider flattening'']
        else [])"
  by (cases "children node") (simp_all add: validateComponent_def Let_def childList_def)

lemma generateComponent_returns:
  "\<exists>spec g'. generateComponent rt g node componentName = (Inr spec, g')"
  by (simp add: generateComponent_def Let_def validateComponent_valid split: prod.splits)

text \<open>
  C2, as the code has it. The pre-flight validation reports no blocking error for any
  node: an invisible root, missing dimensions, nesting deeper than ten levels and more
  than twenty children each add a warning and no error. So \<^verbatim>\<open>generateComponent\<close> never
  raises the validation error and returns a ComponentSpec for every node.
\<close>

theorem generateComponent_validation_never_blocks:
  "errors (validateComponent node) = []
   \<and> isValid (validateComponent node)
   \<and> (\<exists>spec g'. generateComponent rt g node componentName = (Inr spec, g'))
   \<and> (node_visible (attrs node) = Some False
        \<longrightarrow> ''Component is marked as invisible'' \<in> set (warnings (validateComponent node)))
   \<and> (node_width (attrs node) = None \<or> node_height (attrs node) = None
        \<longrightarrow> ''Component has undefined dimensions'' \<in> set (warnings (validateComponent node)))
   \<and> (10 < getDepth node 0
        \<longrightarrow> (''Component has deep nesting ('' @ showNat (getDepth node 0)
              @ '' levels), consider flattening'') \<in> set (warnings (validateComponent node)))
   \<and> (20 < length (childList node)
        \<longrightarrow> (''Component has many children ('' @ showNat (length (childList node))
              @ ''), consider breaking it down'') \<in> set (warnings (validateComponent node)))"
  using generateComponent_returns [of rt g node componentName]
  by (simp add: validateComponent_valid validateComponent_warnings)

theorem generateComponent_validation_never_blocks_witness:
  "node_visible (attrs crowdedTree) = Some False
   \<and> node_width (attrs crowdedTree) = None
   \<and> 10 < getDepth crowdedTree 0
   \<and> 20 < length (childList crowdedTree)
   \<and> errors (validateComponent crowdedTree) = []
   \<and> ''Component is marked as invisible'' \<in> set (warnings (validateComponent crowdedTree))
   \<and> ''Component has undefined dimensions'' \<in> set (warnings (validateComponent crowdedTree))
   \<and> (''Component has deep nesting ('' @ showNat (getDepth crowdedTree 0)
        @ '' levels), consider flattening'') \<in> set (warnings (validateComponent crowdedTree))
   \<and> (''Component has many children ('' @ showNat (length (childList crowdedTree))
        @ ''), consider breaking it down'') \<in> set (warnings (validateComponent crowdedTree))
   \<and> \<not> isl (fst (generateComponent exampleRuntime (newGenerator None None None None)
                    crowdedTree None))"
proof -
  have a: "node_visible (attrs crowdedTree) = Some False"
    and b: "node_width (attrs crowdedTree) = None"
    and c: "10 < getDepth crowdedTree 0"
    and d: "20 < length (childList crowdedTree)"
    by code_simp+
  from generateComponent_validation_never_blocks
         [of crowdedTree exampleRuntime "newGenerator None None None None" None]
  show ?thesis using a b c d by auto
qed

text \<open>
  C2 as stated fails: a root that is not renderable is no blocking error. For an
  invisible root the validation has no error and the generation returns the
  ComponentSpec named Icon.
\<close>

theorem generateComponent_counterexample:
  "\<not> shouldRenderNode hiddenLeaf
   \<and> errors (validateComponent hiddenLeaf) = []
   \<and> map_sum err_message spec_name
       (fst (generateComponent exampleRuntime (newGenerator None None None None) hiddenLeaf None))
     = Inr ''Icon''"
  by code_simp

section \<open>The style registry\<close>

lemma extends_refl: "extends g g"
  by (simp add: extends_def)

lemma extends_trans: "extends g g1 \<Longrightarrow> extends g1 g2 \<Longrightarrow> extends g g2"
  by (auto simp: extends_def)

lemma mapSet_fresh: "\<not> mapHas m k \<Longrightarrow> mapSet k v m = m @ [(k, v)]"
  by (induction m) (auto simp: mapHas_def)

lemma uniqueStyleName_free: "\<not> mapHas reg (uniqueStyleName reg b s c)"
  by (induction reg b s c rule: uniqueStyleName.induct) (simp add: uniqueStyleName.simps)

lemma mapHas_keys: "mapHas m k \<longleftrightarrow> k \<in> set (map fst m)"
  by (simp add: mapHas_def map_of_eq_None_iff)

lemma generateStyleForNode_shape:
  "\<exists>v. generateStyleForNode rt g node isRoot
        = (uniqueStyleName (generatedStyles g) (baseName node isRoot) (baseName node isRoot) 1,
           g\<lparr>generatedStyles :=
               generatedStyles g
               @ [(uniqueStyleName (generatedStyles g) (baseName node isRoot)
                     (baseName node isRoot) 1, v)]\<rparr>)"
proof -
  have "\<exists>v. generateStyleForNode rt g node isRoot
        = (uniqueStyleName (generatedStyles g) (baseName node isRoot) (baseName node isRoot) 1,
           g\<lparr>generatedStyles :=
               mapSet (uniqueStyleName (generatedStyles g) (baseName node isRoot)
                         (baseName node isRoot) 1) v (generatedStyles g)\<rparr>)"
    unfolding generateStyleForNode_def Let_def baseName_def
    by (rule exI) (rule refl)
  then show ?thesis
    by (simp add: mapSet_fresh uniqueStyleName_free)
qed

lemma generateStyleForNode_extends:
  "generateStyleForNode rt g node isRoot = (styleName, g1) \<Longrightarrow> extends g g1"
  using generateStyleForNode_shape[of rt g node isRoot]
    uniqueStyleName_free[of "generatedStyles g" "baseName node isRoot" "baseName node isRoot" 1]
  by (auto simp: extends_def mapHas_keys)

lemma generateStyleForNode_registered:
  "generateStyleForNode rt g node isRoot = (styleName, g1) \<Longrightarrow> mapHas (generatedStyles g1) styleName"
  using generateStyleForNode_shape[of rt g node isRoot]
  by (auto simp: mapHas_keys)

lemma generateNodeJSX_skip:
  "\<not> shouldRenderNode (Node node cs) \<Longrightarrow> generateNodeJSX rt g (Node node cs) depth isRoot = ([], g)"
  by (simp del: shouldRenderNode.simps)

lemma generateNodeJSX_text:
  assumes "shouldRenderNode (Node node cs)" and "node_type node = ''TEXT''"
    and "generateStyleForNode rt g node isRoot = (styleName, g1)"
  shows "generateNodeJSX rt g (Node node cs) depth isRoot =
     (repeat ''    '' (depth + 1) @ ''<Text style={'' @ styleRef rt g1 styleName @ ''}>'' @ nl
      @ repeat ''    '' (depth + 1) @ ''  {'' @ stringifyString rt (extractTextContent node) @ ''}'' @ nl
      @ repeat ''    '' (depth + 1) @ ''</Text>'', g1)"
  using assms by (simp add: Let_def del: shouldRenderNode.simps)

lemma generateNodeJSX_image:
  assumes "shouldRenderNode (Node node cs)" and "node_type node \<noteq> ''TEXT''"
    and "shouldRenderAsImage node"
    and "generateStyleForNode rt g node isRoot = (styleName, g1)"
  shows "generateNodeJSX rt g (Node node cs) depth isRoot =
     (repeat ''    '' (depth + 1) @ ''<View style={'' @ styleRef rt g1 styleName @ ''}>'' @ nl
      @ repeat ''    '' (depth + 1)
      @ ''  {/* TODO: Replace with Image component for vector graphics */}'' @ nl
      @ repeat ''    '' (depth + 1) @ ''</View>'', g1)"
  using assms by (simp add: Let_def del: shouldRenderNode.simps)

lemma generateNodeJSX_container:
  assumes "shouldRenderNode (Node node cs)" and "node_type node \<noteq> ''TEXT''"
    and "\<not> shouldRenderAsImage node"
    and "generateStyleForNode rt g node isRoot = (styleName, g1)"
    and "generateChildrenJSX rt g1 (Node node cs) (depth + 1) = (childrenJSX, g2)"
  shows "generateNodeJSX rt g (Node node cs) depth isRoot =
     (if trim childrenJSX \<noteq> [] then
        repeat ''    '' (depth + 1) @ ''<'' @ getComponentType node @ '' style={''
        @ (if isRoot \<and> includeTypes (options g2)
           then ''['' @ styleRef rt g2 styleName @ '', style]'' else styleRef rt g2 styleName)
        @ ''}>'' @ nl @ childrenJSX @ nl
        @ repeat ''    '' (depth + 1) @ ''</'' @ getComponentType node @ ''>''
      else
        repeat ''    '' (depth + 1) @ ''<'' @ getComponentType node @ '' style={''
        @ (if isRoot \<and> includeTypes (options g2)
           then ''['' @ styleRef rt g2 styleName @ '', style]'' else styleRef rt g2 styleName)
        @ ''} />'', g2)"
  using assms by (simp add: Let_def del: shouldRenderNode.simps generateChildrenJSX.simps)

lemma generation_extends:
  "extends g (snd (generateNodeJSX rt g n depth isRoot))"
  "extends g (snd (generateChildrenJSX rt g n depth))"
  "extends g (snd (mapNodeJSX rt g l depth))"
proof (induction rt g n depth isRoot and rt g n depth and rt g l depth
       rule: generateNodeJSX_generateChildrenJSX_mapNodeJSX.induct)
  case (1 rt g node cs depth isRoot)
  show ?case
  proof (cases "shouldRenderNode (Node node cs)")
    case False
    then show ?thesis by (simp add: generateNodeJSX_skip extends_refl del: generateNodeJSX.simps)
  next
    case True
    obtain styleName g1 where s: "generateStyleForNode rt g node isRoot = (styleName, g1)"
      by (cases "generateStyleForNode rt g node isRoot")
    have e1: "extends g g1" by (rule generateStyleForNode_extends[OF s])
    consider (isText) "node_type node = ''TEXT''"
      | (isImage) "node_type node \<noteq> ''TEXT''" "shouldRenderAsImage node"
      | (isContainer) "node_type node \<noteq> ''TEXT''" "\<not> shouldRenderAsImage node"
      by blast
    then show ?thesis
    proof cases
      case isText
      from generateNodeJSX_text[OF True isText s] e1 show ?thesis by simp
    next
      case isImage
      from generateNodeJSX_image[OF True isImage s] e1 show ?thesis by simp
    next
      case isContainer
      obtain childrenJSX g2 where
        c: "generateChildrenJSX rt g1 (Node node cs) (depth + 1) = (childrenJSX, g2)"
        by (cases "generateChildrenJSX rt g1 (Node node cs) (depth + 1)")
      from True have "\<not> \<not> shouldRenderNode (Node node cs)" by simp
      from 1[OF refl this refl refl s[symmetric] isContainer] c have "extends g1 g2" by simp
      with e1 have "extends g g2" by (rule extends_trans)
      with generateNodeJSX_container[OF True isContainer s c] show ?thesis by simp
    qed
  qed
next
  case (2 rt g node cs depth)
  show ?case
  proof (cases cs)
    case None
    then show ?thesis by (simp add: extends_refl)
  next
    case (Some l)
    show ?thesis
    proof (cases "l = []")
      case True
      with Some show ?thesis by (simp add: extends_refl)
    next
      case False
      with 2[OF Some False] Some show ?thesis by (simp add: split_beta)
    qed
  qed
next
  case (3 rt g depth)
  show ?case by (simp add: extends_refl)
next
  case (4 rt g child rest depth)
  obtain jsx g1 where c: "generateNodeJSX rt g child depth False = (jsx, g1)"
    by (cases "generateNodeJSX rt g child depth False")
  from 4(1) c have e1: "extends g g1" by simp
  from 4(2)[OF c[symmetric]] have "extends g1 (snd (mapNodeJSX rt g1 rest depth))" by simp
  with e1 have "extends g (snd (mapNodeJSX rt g1 rest depth))" by (rule extends_trans)
  with c show ?case by (simp add: split_beta)
qed

lemma uniqueStyleName_least:
  "mapHas reg s \<Longrightarrow>
   \<exists>k\<ge>c. uniqueStyleName reg b s c = b @ showNat k \<and> \<not> mapHas reg (b @ showNat k)
        \<and> (\<forall>j. c \<le> j \<and> j < k \<longrightarrow> mapHas reg (b @ showNat j))"
proof (induction reg b s c rule: uniqueStyleName.induct)
  case (1 reg b s c)
  show ?case
  proof (cases "mapHas reg (b @ showNat c)")
    case False
    with 1(2) have "uniqueStyleName reg b s c = b @ showNat c"
      by (simp add: uniqueStyleName.simps[of reg b s c] uniqueStyleName.simps[of reg b "b @ showNat c"])
    with False show ?thesis by auto
  next
    case True
    from 1(1)[OF 1(2) True] obtain k where k: "c + 1 \<le> k"
      "uniqueStyleName reg b (b @ showNat c) (c + 1) = b @ showNat k"
      "\<not> mapHas reg (b @ showNat k)"
      "\<forall>j. c + 1 \<le> j \<and> j < k \<longrightarrow> mapHas reg (b @ showNat j)"
      by blast
    from 1(2) k(2) have "uniqueStyleName reg b s c = b @ showNat k"
      by (simp add: uniqueStyleName.simps[of reg b s c])
    moreover have "\<forall>j. c \<le> j \<and> j < k \<longrightarrow> mapHas reg (b @ showNat j)"
    proof (intro allI impI)
      fix j assume j: "c \<le> j \<and> j < k"
      show "mapHas reg (b @ showNat j)"
      proof (cases "j = c")
        case True
        with \<open>mapHas reg (b @ showNat c)\<close> show ?thesis by simp
      next
        case False
        with j have "c + 1 \<le> j \<and> j < k" by simp
        with k(4) show ?thesis by blast
      qed
    qed
    ultimately show ?thesis using k(1) k(3) by (intro exI[of _ k]) simp
  qed
qed

lemma uniqueStyleName_candidate:
  "\<exists>k. uniqueStyleName reg b b 1 = candidate b k \<and> \<not> mapHas reg (candidate b k)
       \<and> (\<forall>j<k. mapHas reg (candidate b j))"
proof (cases "mapHas reg b")
  case False
  then have "uniqueStyleName reg b b 1 = candidate b 0"
    by (simp add: uniqueStyleName.simps[of reg b b] candidate_def)
  with False show ?thesis by (intro exI[of _ 0]) (simp add: candidate_def)
next
  case True
  from uniqueStyleName_least[OF True, of 1 b] obtain k where k: "1 \<le> k"
    "uniqueStyleName reg b b 1 = b @ showNat k" "\<not> mapHas reg (b @ showNat k)"
    "\<forall>j. 1 \<le> j \<and> j < k \<longrightarrow> mapHas reg (b @ showNat j)"
    by blast
  have "\<forall>j<k. mapHas reg (candidate b j)"
  proof (intro allI impI)
    fix j assume "j < k"
    with True k(4) show "mapHas reg (candidate b j)"
      by (cases "j = 0") (simp_all add: candidate_def)
  qed
  with k show ?thesis by (intro exI[of _ k]) (simp add: candidate_def)
qed

lemma generateStyleForNode_name:
  "fst (generateStyleForNode rt g node isRoot)
     = uniqueStyleName (generatedStyles g) (baseName node isRoot) (baseName node isRoot) 1"
  by (simp add: generateStyleForNode_def Let_def baseName_def)

lemma generateStyleForNode_keys:
  "map fst (generatedStyles (snd (generateStyleForNode rt g node isRoot)))
     = map fst (generatedStyles g) @ [fst (generateStyleForNode rt g node isRoot)]"
proof -
  let ?n = "uniqueStyleName (generatedStyles g) (baseName node isRoot) (baseName node isRoot) 1"
  have "\<not> mapHas (generatedStyles g) ?n" by (rule uniqueStyleName_free)
  then show ?thesis
    by (simp add: generateStyleForNode_def Let_def baseName_def mapSet_fresh)
qed

lemma registerAll_keys:
  "map fst (generatedStyles (snd (registerAll rt g nodes)))
     = map fst (generatedStyles g) @ fst (registerAll rt g nodes)"
proof (induction nodes arbitrary: g)
  case Nil
  show ?case by simp
next
  case (Cons p nodes)
  obtain node isRoot where p: "p = (node, isRoot)" by (cases p)
  obtain n g1 where s: "generateStyleForNode rt g node isRoot = (n, g1)"
    by (cases "generateStyleForNode rt g node isRoot")
  from generateStyleForNode_keys[of rt g node isRoot] s
  have "map fst (generatedStyles g1) = map fst (generatedStyles g) @ [n]" by simp
  with Cons[of g1] p s show ?case by (simp add: split_beta)
qed

lemma registerAll_distinct:
  "distinct (map fst (generatedStyles g)) \<Longrightarrow>
   distinct (map fst (generatedStyles g) @ fst (registerAll rt g nodes))"
proof (induction nodes arbitrary: g)
  case Nil
  then show ?case by simp
next
  case (Cons p nodes)
  obtain node isRoot where p: "p = (node, isRoot)" by (cases p)
  obtain n g1 where s: "generateStyleForNode rt g node isRoot = (n, g1)"
    by (cases "generateStyleForNode rt g node isRoot")
  from generateStyleForNode_keys[of rt g node isRoot] s
  have k: "map fst (generatedStyles g1) = map fst (generatedStyles g) @ [n]" by simp
  have "\<not> mapHas (generatedStyles g) n"
    using generateStyleForNode_name[of rt g node isRoot] s uniqueStyleName_free by simp
  with Cons.prems k have "distinct (map fst (generatedStyles g1))"
    by (simp add: mapHas_keys)
  from Cons.IH[OF this] k p s show ?case by (simp add: split_beta)
qed

lemma showNat_nonempty: "showNat n \<noteq> []"
  by (simp add: showNat.simps[of n])

lemma candidate_inj: "candidate b j = candidate b k \<Longrightarrow> j = k"
  using showNat_nonempty showNat_inj
  by (auto simp: candidate_def split: if_splits)

lemma registerAll_same_base:
  assumes "list_all (\<lambda>(node, isRoot). baseName node isRoot = b) nodes"
    and "\<forall>k. mapHas (generatedStyles g) (candidate b k) \<longleftrightarrow> k < j"
  shows "fst (registerAll rt g nodes) = map (candidate b) [j ..< j + length nodes]"
  using assms
proof (induction nodes arbitrary: g j)
  case Nil
  show ?case by simp
next
  case (Cons p nodes)
  obtain node isRoot where p: "p = (node, isRoot)" by (cases p)
  obtain n g1 where s: "generateStyleForNode rt g node isRoot = (n, g1)"
    by (cases "generateStyleForNode rt g node isRoot")
  from Cons.prems(1) p have b: "baseName node isRoot = b"
    and rest: "list_all (\<lambda>(node, isRoot). baseName node isRoot = b) nodes" by simp_all
  from generateStyleForNode_name[of rt g node isRoot] s b
  have "n = uniqueStyleName (generatedStyles g) b b 1" by simp
  with uniqueStyleName_candidate[of "generatedStyles g" b] obtain k where
    k: "n = candidate b k" "\<not> mapHas (generatedStyles g) (candidate b k)"
       "\<forall>i<k. mapHas (generatedStyles g) (candidate b i)"
    by auto
  from k(2) Cons.prems(2) have "\<not> k < j" by blast
  moreover from k(3) Cons.prems(2) have "\<not> j < k" by blast
  ultimately have "k = j" by simp
  with k(1) have n: "n = candidate b j" by simp
  from generateStyleForNode_keys[of rt g node isRoot] s
  have keys: "map fst (generatedStyles g1) = map fst (generatedStyles g) @ [n]" by simp
  have inv: "\<forall>k. mapHas (generatedStyles g1) (candidate b k) \<longleftrightarrow> k < j + 1"
  proof
    fix k
    have "mapHas (generatedStyles g1) (candidate b k)
            \<longleftrightarrow> mapHas (generatedStyles g) (candidate b k) \<or> candidate b k = candidate b j"
      using keys n by (auto simp: mapHas_keys)
    also have "\<dots> \<longleftrightarrow> k < j \<or> k = j"
      using Cons.prems(2) candidate_inj[of b k j] by auto
    finally show "mapHas (generatedStyles g1) (candidate b k) \<longleftrightarrow> k < j + 1" by auto
  qed
  from Cons.IH[OF rest inv]
  have ih: "fst (registerAll rt g1 nodes) = map (candidate b) [j + 1 ..< j + 1 + length nodes]" .
  have u: "[j ..< j + length (p # nodes)] = j # [j + 1 ..< j + 1 + length nodes]"
    by (subst upt_rec) simp
  have reg: "fst (registerAll rt g (p # nodes)) = n # fst (registerAll rt g1 nodes)"
    using p s by (simp add: split_beta)
  show ?case by (simp only: reg u ih n list.map)
qed

lemma generateComponent_distinct:
  "distinct (map fst (generatedStyles (snd (generateComponent rt g tree componentName))))"
proof -
  let ?g0 = "g\<lparr>generatedStyles := [], componentCounter := 0\<rparr>"
  have "extends ?g0 (snd (generateNodeJSX rt ?g0 tree 0 True))"
    by (rule generation_extends)
  then have "distinct (map fst (generatedStyles (snd (generateNodeJSX rt ?g0 tree 0 True))))"
    by (simp add: extends_def)
  then show ?thesis
    by (simp add: generateComponent_def generateComponentJSX_def Let_def validateComponent_valid
          split_beta del: generateNodeJSX.simps)
qed

text \<open>
  C5, as the code has it. The keys of the registry after a generation run are pairwise
  distinct. Each call of \<^verbatim>\<open>generateStyleForNode\<close> returns the first candidate that is
  free: the base name, or else the base name with the least suffix from 1 on that the
  registry does not hold. In a sequence of registrations the names are distinct from one
  another and from the keys already there. When the nodes of a sequence share a base name
  and the registry holds no candidate of that base name at the start, the first node
  receives the base name and the node after \<open>k\<close> others receives the suffix \<open>k\<close>.
\<close>

theorem style_names_unique:
  "distinct (map fst (generatedStyles (snd (generateComponent rt g tree componentName))))
   \<and> (\<exists>k. fst (generateStyleForNode rt g node isRoot) = candidate (baseName node isRoot) k
          \<and> \<not> mapHas (generatedStyles g) (candidate (baseName node isRoot) k)
          \<and> (\<forall>j<k. mapHas (generatedStyles g) (candidate (baseName node isRoot) j)))
   \<and> (distinct (map fst (generatedStyles g))
        \<longrightarrow> distinct (map fst (generatedStyles g) @ fst (registerAll rt g nodes)))
   \<and> (list_all (\<lambda>(node, isRoot). baseName node isRoot = b) nodes
        \<and> (\<forall>k. \<not> mapHas (generatedStyles g) (candidate b k))
        \<longrightarrow> fst (registerAll rt g nodes) = map (candidate b) [0 ..< length nodes])"
proof (intro conjI impI)
  show "distinct (map fst (generatedStyles (snd (generateComponent rt g tree componentName))))"
    by (rule generateComponent_distinct)
  show "\<exists>k. fst (generateStyleForNode rt g node isRoot) = candidate (baseName node isRoot) k
          \<and> \<not> mapHas (generatedStyles g) (candidate (baseName node isRoot) k)
          \<and> (\<forall>j<k. mapHas (generatedStyles g) (candidate (baseName node isRoot) j))"
    using uniqueStyleName_candidate[of "generatedStyles g" "baseName node isRoot"]
    by (simp add: generateStyleForNode_name)
  show "distinct (map fst (generatedStyles g) @ fst (registerAll rt g nodes))"
    if "distinct (map fst (generatedStyles g))"
    using that by (rule registerAll_distinct)
  show "fst (registerAll rt g nodes) = map (candidate b) [0 ..< length nodes]"
    if "list_all (\<lambda>(node, isRoot). baseName node isRoot = b) nodes
        \<and> (\<forall>k. \<not> mapHas (generatedStyles g) (candidate b k))"
    using that registerAll_same_base[of b nodes g 0 rt] by simp
qed

theorem style_names_unique_witness:
  "distinct (map fst (generatedStyles containerOnly))
   \<and> list_all (\<lambda>(node, isRoot). baseName node isRoot = ''icon'')
        [(attrs (iconNamed ''Icon''), False), (attrs (iconNamed ''Icon''), False)]
   \<and> (\<forall>k. \<not> mapHas (generatedStyles containerOnly) (candidate ''icon'' k))
   \<and> fst (registerAll exampleRuntime containerOnly
            [(attrs (iconNamed ''Icon''), False), (attrs (iconNamed ''Icon''), False)])
       = [''icon'', ''icon1'']
   \<and> map fst (generatedStyles (snd (generateComponent exampleRuntime
                (newGenerator None None None None) twoIcons None)))
       = [''container'', ''icon'', ''icon1'']"
proof -
  let ?nodes = "[(attrs (iconNamed ''Icon''), False), (attrs (iconNamed ''Icon''), False)]"
  have d: "distinct (map fst (generatedStyles containerOnly))" by code_simp
  have a: "list_all (\<lambda>(node, isRoot). baseName node isRoot = ''icon'') ?nodes" by code_simp
  have f: "\<forall>k. \<not> mapHas (generatedStyles containerOnly) (candidate ''icon'' k)"
    by (simp add: containerOnly_def mapHas_def candidate_def)
  have m: "map (candidate ''icon'') [0 ..< length ?nodes] = [''icon'', ''icon1'']" by code_simp
  have e: "map fst (generatedStyles (snd (generateComponent exampleRuntime
                (newGenerator None None None None) twoIcons None)))
       = [''container'', ''icon'', ''icon1'']"
    by code_simp
  note t = style_names_unique[of exampleRuntime containerOnly twoIcons None
             "attrs (iconNamed ''Icon'')" False ?nodes "''icon''",
             THEN conjunct2, THEN conjunct2, THEN conjunct2]
  have "fst (registerAll exampleRuntime containerOnly ?nodes)
            = map (candidate ''icon'') [0 ..< length ?nodes]"
    by (rule t[THEN mp, OF conjI[OF a f]])
  then have r: "fst (registerAll exampleRuntime containerOnly ?nodes) = [''icon'', ''icon1'']"
    by (simp only: m)
  show ?thesis by (intro conjI d a f r e)
qed

text \<open>
  C5 as stated fails: a key that comes from another base name is skipped. After a
  sibling named Icon1, which takes the key icon1, two siblings named Icon receive icon
  and icon2: the suffixes of the nodes that share the base name icon do not start at 1.
\<close>

theorem style_names_counterexample:
  "generateStyleName ''Icon1'' = ''icon1''
   \<and> generateStyleName ''Icon'' = ''icon''
   \<and> map fst (generatedStyles (snd (generateComponent exampleRuntime
                (newGenerator None None None None) threeIcons None)))
       = [''container'', ''icon1'', ''icon'', ''icon2'']"
  by code_simp

section \<open>Emitted markup\<close>

lemma styleRef_extends:
  assumes "extends g1 g2" and "mapHas (generatedStyles g1) k"
  shows "styleRef rt g2 k = styleRef rt g1 k"
proof -
  from assms(1) obtain added where
    o: "options g2 = options g1" and a: "generatedStyles g2 = generatedStyles g1 @ added"
    by (auto simp: extends_def)
  from assms(2) obtain v where "map_of (generatedStyles g1) k = Some v"
    by (auto simp: mapHas_def)
  then have "map_of (generatedStyles g2) k = map_of (generatedStyles g1) k"
    by (simp add: a map_add_Some_iff)
  with o show ?thesis by (simp add: styleRef_def)
qed

lemma trim_nonempty_iff: "trim s \<noteq> [] \<longleftrightarrow> (\<exists>c\<in>set s. \<not> isSpace c)"
proof -
  have d: "\<And>xs. (\<forall>x\<in>set (dropWhile isSpace xs). isSpace x) \<longleftrightarrow> (\<forall>x\<in>set xs. isSpace x)"
  proof
    fix xs
    assume a: "\<forall>x\<in>set (dropWhile isSpace xs). isSpace x"
    show "\<forall>x\<in>set xs. isSpace x"
    proof (rule ccontr)
      assume "\<not> (\<forall>x\<in>set xs. isSpace x)"
      then have ne: "dropWhile isSpace xs \<noteq> []" by (simp add: dropWhile_eq_Nil_conv)
      then have "\<not> isSpace (hd (dropWhile isSpace xs))" by (rule hd_dropWhile)
      moreover from ne have "hd (dropWhile isSpace xs) \<in> set (dropWhile isSpace xs)" by simp
      ultimately show False using a by blast
    qed
  next
    fix xs
    assume "\<forall>x\<in>set xs. isSpace x"
    then show "\<forall>x\<in>set (dropWhile isSpace xs). isSpace x"
      by (meson set_dropWhileD)
  qed
  have "trim s = [] \<longleftrightarrow> (\<forall>x\<in>set (dropWhile isSpace s). isSpace x)"
    by (simp add: trim_def dropWhile_eq_Nil_conv)
  with d[of s] show ?thesis by blast
qed

lemma getComponentType_text: "node_type node = ''TEXT'' \<Longrightarrow> getComponentType node = ''Text''"
  by (simp add: getComponentType_def lookupOr_def NODE_TO_COMPONENT_MAP_def)

lemma getComponentType_image: "shouldRenderAsImage node \<Longrightarrow> getComponentType node = ''View''"
  by (auto simp: shouldRenderAsImage_def getComponentType_def lookupOr_def NODE_TO_COMPONENT_MAP_def)

lemma rendered_nonblank:
  assumes "shouldRenderNode n"
  shows "trim (fst (generateNodeJSX rt g n depth isRoot)) \<noteq> []"
proof (cases n)
  case (Node node cs)
  obtain styleName g1 where s: "generateStyleForNode rt g node isRoot = (styleName, g1)"
    by (cases "generateStyleForNode rt g node isRoot")
  from assms Node have r: "shouldRenderNode (Node node cs)" by simp
  consider (isText) "node_type node = ''TEXT''"
    | (isImage) "node_type node \<noteq> ''TEXT''" "shouldRenderAsImage node"
    | (isContainer) "node_type node \<noteq> ''TEXT''" "\<not> shouldRenderAsImage node"
    by blast
  then show ?thesis
  proof cases
    case isText
    from generateNodeJSX_text[OF r isText s] Node show ?thesis
      by (simp add: trim_nonempty_iff isSpace_def del: generateNodeJSX.simps)
  next
    case isImage
    from generateNodeJSX_image[OF r isImage s] Node show ?thesis
      by (simp add: trim_nonempty_iff isSpace_def del: generateNodeJSX.simps)
  next
    case isContainer
    obtain childrenJSX g2 where
      c: "generateChildrenJSX rt g1 (Node node cs) (depth + 1) = (childrenJSX, g2)"
      by (cases "generateChildrenJSX rt g1 (Node node cs) (depth + 1)")
    from generateNodeJSX_container[OF r isContainer s c] Node show ?thesis
      by (simp add: trim_nonempty_iff isSpace_def del: generateNodeJSX.simps)
  qed
qed

lemma set_join: "x \<in> set xs \<Longrightarrow> set x \<subseteq> set (join sep xs)"
  by (induction sep xs rule: join.induct) auto

lemma join_nonblank:
  assumes "xs \<noteq> []" and "list_all (\<lambda>x. trim x \<noteq> []) xs"
  shows "trim (join sep xs) \<noteq> []"
proof -
  from assms obtain x where x: "x \<in> set xs" "trim x \<noteq> []"
    by (cases xs) auto
  then obtain c where "c \<in> set x" "\<not> isSpace c" by (auto simp: trim_nonempty_iff)
  with set_join[OF x(1), of sep] show ?thesis by (auto simp: trim_nonempty_iff)
qed

lemma trim_Nil: "trim [] = []"
  by (simp add: trim_def)

lemma mapNodeJSX_renderable:
  "list_all shouldRenderNode l \<Longrightarrow>
   length (fst (mapNodeJSX rt g l depth)) = length l
   \<and> list_all (\<lambda>jsx. trim jsx \<noteq> []) (fst (mapNodeJSX rt g l depth))"
proof (induction l arbitrary: g)
  case Nil
  show ?case by simp
next
  case (Cons child rest)
  then have "shouldRenderNode child" and "list_all shouldRenderNode rest" by simp_all
  with Cons.IH[of "snd (generateNodeJSX rt g child depth False)"]
    rendered_nonblank[of child rt g depth False]
  show ?case by (simp add: split_beta del: generateNodeJSX.simps)
qed


lemma generateChildrenJSX_join:
  "generateChildrenJSX rt g tree depth =
     (join nl (fst (mapNodeJSX rt g (filter shouldRenderNode (childList tree)) depth)),
      snd (mapNodeJSX rt g (filter shouldRenderNode (childList tree)) depth))"
proof (cases tree)
  case (Node node cs)
  show ?thesis
  proof (cases cs)
    case None
    with Node show ?thesis by (simp add: childList_def)
  next
    case (Some l)
    have "list_all shouldRenderNode (filter shouldRenderNode l)"
      by (simp add: list_all_iff)
    from mapNodeJSX_renderable[OF this, of rt g depth]
    have "filter (\<lambda>jsx. trim jsx \<noteq> []) (fst (mapNodeJSX rt g (filter shouldRenderNode l) depth))
            = fst (mapNodeJSX rt g (filter shouldRenderNode l) depth)"
      by (simp add: list_all_iff)
    with Node Some show ?thesis by (simp add: childList_def split_beta)
  qed
qed

lemma container_form:
  assumes r: "shouldRenderNode (Node node cs)" and t: "node_type node \<noteq> ''TEXT''"
    and i: "\<not> shouldRenderAsImage node"
  shows "fst (generateNodeJSX rt g (Node node cs) depth isRoot) =
     (if filter shouldRenderNode (childList (Node node cs)) = [] then
        repeat ''    '' (depth + 1) @ ''<'' @ getComponentType node @ '' style={''
        @ styleAttribute rt g node isRoot @ ''} />''
      else
        repeat ''    '' (depth + 1) @ ''<'' @ getComponentType node @ '' style={''
        @ styleAttribute rt g node isRoot @ ''}>'' @ nl
        @ join nl (childrenMarkup rt g (Node node cs) depth isRoot) @ nl
        @ repeat ''    '' (depth + 1) @ ''</'' @ getComponentType node @ ''>'')"
proof -
  let ?kids = "filter shouldRenderNode (childList (Node node cs))"
  obtain styleName g1 where s: "generateStyleForNode rt g node isRoot = (styleName, g1)"
    by (cases "generateStyleForNode rt g node isRoot")
  let ?M = "mapNodeJSX rt g1 ?kids (depth + 1)"
  have c: "generateChildrenJSX rt g1 (Node node cs) (depth + 1) = (join nl (fst ?M), snd ?M)"
    by (rule generateChildrenJSX_join)
  have e1: "extends g g1" by (rule generateStyleForNode_extends[OF s])
  have e2: "extends g1 (snd ?M)" by (rule generation_extends)
  have o: "options (snd ?M) = options g"
    using e1 e2 by (simp add: extends_def)
  have "styleRef rt (snd ?M) styleName = styleRef rt g1 styleName"
    by (rule styleRef_extends[OF e2 generateStyleForNode_registered[OF s]])
  with s have ref: "styleRef rt (snd ?M) styleName = ownStyleRef rt g node isRoot"
    by (simp add: ownStyleRef_def)
  have m: "childrenMarkup rt g (Node node cs) depth isRoot = fst ?M"
    using s by (simp add: childrenMarkup_def)
  have k: "list_all shouldRenderNode ?kids" by (simp add: list_all_iff)
  have blank: "trim (join nl (fst ?M)) = [] \<longleftrightarrow> ?kids = []"
  proof (cases "?kids = []")
    case True
    then show ?thesis by (simp add: trim_Nil)
  next
    case False
    with mapNodeJSX_renderable[OF k, of rt g1 "depth + 1"]
    have "fst ?M \<noteq> []" and "list_all (\<lambda>jsx. trim jsx \<noteq> []) (fst ?M)" by auto
    then have "trim (join nl (fst ?M)) \<noteq> []" by (rule join_nonblank)
    with False show ?thesis by simp
  qed
  have "fst (generateNodeJSX rt g (Node node cs) depth isRoot) =
     (if trim (join nl (fst ?M)) \<noteq> [] then
        repeat ''    '' (depth + 1) @ ''<'' @ getComponentType node @ '' style={''
        @ (if isRoot \<and> includeTypes (options (snd ?M))
           then ''['' @ styleRef rt (snd ?M) styleName @ '', style]''
           else styleRef rt (snd ?M) styleName)
        @ ''}>'' @ nl @ join nl (fst ?M) @ nl
        @ repeat ''    '' (depth + 1) @ ''</'' @ getComponentType node @ ''>''
      else
        repeat ''    '' (depth + 1) @ ''<'' @ getComponentType node @ '' style={''
        @ (if isRoot \<and> includeTypes (options (snd ?M))
           then ''['' @ styleRef rt (snd ?M) styleName @ '', style]''
           else styleRef rt (snd ?M) styleName)
        @ ''} />'')"
    by (simp only: generateNodeJSX_container[OF r t i s c] fst_conv)
  note gen = this[unfolded blank o ref]
  show ?thesis
  proof (cases "?kids = []")
    case True
    with gen show ?thesis
      by (simp add: m styleAttribute_def del: generateNodeJSX.simps)
  next
    case False
    with gen show ?thesis
      by (simp add: m styleAttribute_def del: generateNodeJSX.simps)
  qed
qed





text \<open>
  C6, as the code has it. The markup of a renderable node opens with its tag and a style
  attribute. For a node that is not the root the attribute is the reference to the style
  registered for the node, whatever the kind of the node. For a root that is rendered as
  a container the attribute is the composition of that reference with the \<^verbatim>\<open>style\<close> prop
  when type declarations are on, and the reference alone when they are off.
\<close>

theorem style_reference:
  assumes r: "shouldRenderNode tree"
    and c: "isRoot \<longrightarrow> node_type (attrs tree) \<noteq> ''TEXT'' \<and> \<not> shouldRenderAsImage (attrs tree)"
  shows "\<exists>rest. fst (generateNodeJSX rt g tree depth isRoot) =
           (repeat ''    '' (depth + 1) @ ''<'' @ getComponentType (attrs tree) @ '' style={''
            @ (if isRoot \<and> includeTypes (options g)
               then ''['' @ ownStyleRef rt g (attrs tree) isRoot @ '', style]''
               else ownStyleRef rt g (attrs tree) isRoot)
            @ ''}'') @ rest"
proof -
  obtain node cs where n: "tree = Node node cs" by (cases tree)
  obtain styleName g1 where s: "generateStyleForNode rt g node isRoot = (styleName, g1)"
    by (cases "generateStyleForNode rt g node isRoot")
  from s have own: "ownStyleRef rt g node isRoot = styleRef rt g1 styleName"
    by (simp add: ownStyleRef_def)
  from r n have rn: "shouldRenderNode (Node node cs)" by simp
  consider (isText) "node_type node = ''TEXT''"
    | (isImage) "node_type node \<noteq> ''TEXT''" "shouldRenderAsImage node"
    | (isContainer) "node_type node \<noteq> ''TEXT''" "\<not> shouldRenderAsImage node"
    by blast
  then show ?thesis
  proof cases
    case isText
    with c n have nr: "\<not> isRoot" by simp
    have "fst (generateNodeJSX rt g tree depth isRoot) =
           (repeat ''    '' (depth + 1) @ ''<'' @ getComponentType (attrs tree) @ '' style={''
            @ (if isRoot \<and> includeTypes (options g)
               then ''['' @ ownStyleRef rt g (attrs tree) isRoot @ '', style]''
               else ownStyleRef rt g (attrs tree) isRoot)
            @ ''}'')
           @ (''>'' @ nl @ repeat ''    '' (depth + 1) @ ''  {''
              @ stringifyString rt (extractTextContent node) @ ''}'' @ nl
              @ repeat ''    '' (depth + 1) @ ''</Text>'')"
      using generateNodeJSX_text[OF rn isText s, of depth] nr n own
        getComponentType_text[OF isText]
      by (simp del: generateNodeJSX.simps)
    then show ?thesis by (rule exI)
  next
    case isImage
    with c n have nr: "\<not> isRoot" by simp
    have "fst (generateNodeJSX rt g tree depth isRoot) =
           (repeat ''    '' (depth + 1) @ ''<'' @ getComponentType (attrs tree) @ '' style={''
            @ (if isRoot \<and> includeTypes (options g)
               then ''['' @ ownStyleRef rt g (attrs tree) isRoot @ '', style]''
               else ownStyleRef rt g (attrs tree) isRoot)
            @ ''}'')
           @ (''>'' @ nl @ repeat ''    '' (depth + 1)
              @ ''  {/* TODO: Replace with Image component for vector graphics */}'' @ nl
              @ repeat ''    '' (depth + 1) @ ''</View>'')"
      using generateNodeJSX_image[OF rn isImage s, of depth] nr n own
        getComponentType_image[OF isImage(2)]
      by (simp del: generateNodeJSX.simps)
    then show ?thesis by (rule exI)
  next
    case isContainer
    have "fst (generateNodeJSX rt g tree depth isRoot) =
           (repeat ''    '' (depth + 1) @ ''<'' @ getComponentType (attrs tree) @ '' style={''
            @ (if isRoot \<and> includeTypes (options g)
               then ''['' @ ownStyleRef rt g (attrs tree) isRoot @ '', style]''
               else ownStyleRef rt g (attrs tree) isRoot)
            @ ''}'')
           @ (if filter shouldRenderNode (childList tree) = [] then '' />''
              else ''>'' @ nl @ join nl (childrenMarkup rt g tree depth isRoot) @ nl
                   @ repeat ''    '' (depth + 1) @ ''</'' @ getComponentType (attrs tree) @ ''>'')"
      using container_form[OF rn isContainer, of rt g depth isRoot] n
      by (simp add: styleAttribute_def del: generateNodeJSX.simps)
    then show ?thesis by (rule exI)
  qed
qed

theorem style_reference_witness:
  "shouldRenderNode loginButton
   \<and> node_type (attrs loginButton) \<noteq> ''TEXT''
   \<and> \<not> shouldRenderAsImage (attrs loginButton)
   \<and> (\<exists>rest. fst (generateNodeJSX exampleRuntime (newGenerator None None None None)
                    loginButton 0 True)
               = ''    <View style={[styles.container, style]}'' @ rest)
   \<and> shouldRenderNode loginText
   \<and> (\<exists>rest. fst (generateNodeJSX exampleRuntime (newGenerator None None None None)
                    loginText 1 False)
               = ''        <Text style={styles.label}'' @ rest)"
proof -
  let ?g = "newGenerator None None None None"
  have r: "shouldRenderNode loginButton" by code_simp
  have t: "node_type (attrs loginButton) \<noteq> ''TEXT''" by code_simp
  have i: "\<not> shouldRenderAsImage (attrs loginButton)" by code_simp
  have r2: "shouldRenderNode loginText" by code_simp
  have p: "repeat ''    '' (0 + 1) @ ''<'' @ getComponentType (attrs loginButton) @ '' style={''
            @ (if True \<and> includeTypes (options ?g)
               then ''['' @ ownStyleRef exampleRuntime ?g (attrs loginButton) True @ '', style]''
               else ownStyleRef exampleRuntime ?g (attrs loginButton) True)
            @ ''}'' = ''    <View style={[styles.container, style]}''"
    by code_simp
  have p2: "repeat ''    '' (1 + 1) @ ''<'' @ getComponentType (attrs loginText) @ '' style={''
            @ (if False \<and> includeTypes (options ?g)
               then ''['' @ ownStyleRef exampleRuntime ?g (attrs loginText) False @ '', style]''
               else ownStyleRef exampleRuntime ?g (attrs loginText) False)
            @ ''}'' = ''        <Text style={styles.label}''"
    by code_simp
  have h: "True \<longrightarrow> node_type (attrs loginButton) \<noteq> ''TEXT''
                   \<and> \<not> shouldRenderAsImage (attrs loginButton)"
    using t i by blast
  have h2: "False \<longrightarrow> node_type (attrs loginText) \<noteq> ''TEXT''
                   \<and> \<not> shouldRenderAsImage (attrs loginText)"
    by blast
  have a: "\<exists>rest. fst (generateNodeJSX exampleRuntime ?g loginButton 0 True)
               = ''    <View style={[styles.container, style]}'' @ rest"
    by (rule style_reference[OF r h, of exampleRuntime ?g 0, unfolded p])
  have b: "\<exists>rest. fst (generateNodeJSX exampleRuntime ?g loginText 1 False)
               = ''        <Text style={styles.label}'' @ rest"
    by (rule style_reference[OF r2 h2, of exampleRuntime ?g 1, unfolded p2])
  show ?thesis by (intro conjI r t i a r2 b)
qed

text \<open>
  C6 as stated fails: with type declarations off the component has no \<^verbatim>\<open>style\<close> prop,
  and the root references its registered style alone.
\<close>

theorem style_reference_counterexample:
  "map_sum err_message spec_component
     (fst (generateComponent exampleRuntime (newGenerator (Some False) None None None)
             positionedLeaf None))
   = Inr (''const Icon = (props) => {'' @ nl
          @ ''  return ('' @ nl
          @ ''    <View style={styles.container} />'' @ nl
          @ ''  );'' @ nl
          @ ''};'')"
  by code_simp

end
